theory Spec2Isabelle
  imports Complex_Main "HOL-Library.Log_Nat" "HOL-Library.AList" "HOL-Library.Sublist"
begin

section \<open>Python floats\<close>

text \<open>
  Every amount and balance of \<^verbatim>\<open>main.py\<close> is a Python \<^verbatim>\<open>float\<close>: an IEEE 754 binary64
  number. A finite float is modelled by the rational number it denotes, next to the two
  infinities and NaN. The two zeros are identified (Python compares them equal, and no
  operation of the program tells them apart). Arithmetic rounds the exact result to the
  nearest float, ties to even, as the hardware does.
\<close>

datatype pyfloat = Fin rat | PInf | NInf | NaN

definition pow2 :: "int \<Rightarrow> rat" where
  "pow2 k = (if 0 \<le> k then 2 ^ nat k else 1 / 2 ^ nat (- k))"

text \<open>The exponent \<open>e\<close> with \<open>2^e \<le> a < 2^(e+1)\<close>, for \<open>a > 0\<close>.\<close>

definition floor_log2 :: "rat \<Rightarrow> int" where
  "floor_log2 a = (if 1 \<le> a then bitlen \<lfloor>a\<rfloor> - 1 else - bitlen (\<lceil>1 / a\<rceil> - 1))"

definition round_half_even :: "rat \<Rightarrow> int" where
  "round_half_even y =
     (let f = \<lfloor>y\<rfloor>; d = y - of_int f
      in if d < 1 / 2 then f else if 1 / 2 < d then f + 1 else if even f then f else f + 1)"

text \<open>
  Rounding to binary64: 53 significant bits, the spacing never below \<open>2^-1074\<close>
  (subnormal numbers), and overflow to an infinity when the rounded value reaches
  \<open>2^1024\<close>.
\<close>

definition overflow_threshold :: rat where
  "overflow_threshold = 2 ^ 1024"

definition round64 :: "rat \<Rightarrow> pyfloat" where
  "round64 x =
     (if x = 0 then Fin 0
      else let a = \<bar>x\<bar>;
               q = max (floor_log2 a - 52) (- 1074);
               r = of_int (round_half_even (a / pow2 q)) * pow2 q
           in if overflow_threshold \<le> r then (if 0 < x then PInf else NInf)
              else Fin (if 0 < x then r else - r))"

text \<open>A value of the model is a float when rounding leaves it alone.\<close>

fun is_double :: "pyfloat \<Rightarrow> bool" where
  "is_double (Fin r) = (round64 r = Fin r)"
| "is_double _ = True"

fun fadd :: "pyfloat \<Rightarrow> pyfloat \<Rightarrow> pyfloat" where
  "fadd NaN _ = NaN"
| "fadd _ NaN = NaN"
| "fadd (Fin a) (Fin b) = round64 (a + b)"
| "fadd PInf NInf = NaN"
| "fadd NInf PInf = NaN"
| "fadd PInf _ = PInf"
| "fadd _ PInf = PInf"
| "fadd NInf _ = NInf"
| "fadd _ NInf = NInf"

fun fsub :: "pyfloat \<Rightarrow> pyfloat \<Rightarrow> pyfloat" where
  "fsub NaN _ = NaN"
| "fsub _ NaN = NaN"
| "fsub (Fin a) (Fin b) = round64 (a - b)"
| "fsub PInf PInf = NaN"
| "fsub NInf NInf = NaN"
| "fsub PInf _ = PInf"
| "fsub _ NInf = PInf"
| "fsub NInf _ = NInf"
| "fsub _ PInf = NInf"

fun fmul :: "pyfloat \<Rightarrow> pyfloat \<Rightarrow> pyfloat" where
  "fmul NaN _ = NaN"
| "fmul _ NaN = NaN"
| "fmul (Fin a) (Fin b) = round64 (a * b)"
| "fmul (Fin a) PInf = (if a = 0 then NaN else if 0 < a then PInf else NInf)"
| "fmul (Fin a) NInf = (if a = 0 then NaN else if 0 < a then NInf else PInf)"
| "fmul PInf (Fin b) = (if b = 0 then NaN else if 0 < b then PInf else NInf)"
| "fmul NInf (Fin b) = (if b = 0 then NaN else if 0 < b then NInf else PInf)"
| "fmul PInf PInf = PInf"
| "fmul NInf NInf = PInf"
| "fmul PInf NInf = NInf"
| "fmul NInf PInf = NInf"

text \<open>Comparisons: every comparison with NaN is false, except \<^verbatim>\<open>!=\<close>, which is true.\<close>

fun fle :: "pyfloat \<Rightarrow> pyfloat \<Rightarrow> bool" where
  "fle NaN _ = False"
| "fle _ NaN = False"
| "fle (Fin a) (Fin b) = (a \<le> b)"
| "fle NInf _ = True"
| "fle _ PInf = True"
| "fle _ _ = False"

fun fgt :: "pyfloat \<Rightarrow> pyfloat \<Rightarrow> bool" where
  "fgt NaN _ = False"
| "fgt _ NaN = False"
| "fgt (Fin a) (Fin b) = (b < a)"
| "fgt PInf PInf = False"
| "fgt PInf _ = True"
| "fgt NInf _ = False"
| "fgt _ NInf = True"
| "fgt _ _ = False"

fun fne :: "pyfloat \<Rightarrow> pyfloat \<Rightarrow> bool" where
  "fne NaN _ = True"
| "fne _ NaN = True"
| "fne x y = (x \<noteq> y)"

text \<open>
  \<^verbatim>\<open>float(s)\<close> of a decimal numeral \<open>s\<close> of value \<open>r\<close>, and the float a decimal literal
  of the source denotes, is the float nearest to \<open>r\<close>.
\<close>

definition float_of :: "rat \<Rightarrow> pyfloat" where
  "float_of r = round64 r"

section \<open>Interest strategies\<close>

datatype interest_strategy = SavingsInterest | CheckingInterest | LoanInterest

fun calculate_interest :: "interest_strategy \<Rightarrow> pyfloat \<Rightarrow> pyfloat" where
  "calculate_interest SavingsInterest balance = fmul balance (float_of (2 / 100))"
| "calculate_interest CheckingInterest balance = fmul balance (float_of (1 / 1000))"
| "calculate_interest LoanInterest balance = fmul balance (float_of (5 / 100))"

section \<open>Transactions and accounts\<close>

text \<open>
  The timestamp of a transaction is a \<^verbatim>\<open>datetime\<close>; the program only stores it, prints it
  and converts it to and from ISO text, so its type is a parameter \<open>'ts\<close>.
  \<^verbatim>\<open>datetime.now()\<close> is an input: each operation takes the instant it reads.
\<close>

record 'ts transaction =
  type :: string
  amount :: pyfloat
  timestamp :: 'ts

datatype observer = TransactionLogger

record 'ts account =
  account_id :: string
  owner :: string
  account_type :: string
  balance :: pyfloat
  transaction_history :: "'ts transaction list"
  observers :: "observer list"
  interest_strategy :: interest_strategy

text \<open>
  A Python \<^verbatim>\<open>str\<close> is modelled by a \<open>string\<close>, whose characters are the code points below
  256. On these \<^verbatim>\<open>str.lower()\<close> moves the capital letters \<^verbatim>\<open>A\<close> to \<^verbatim>\<open>Z\<close> (65 to 90) and the
  capital letters of Latin-1 (192 to 222, without the multiplication sign 215) up by 32, and
  leaves every other character alone. Text with a code point from 256 on is not covered by
  the model; of those only the Kelvin sign (8490), which \<^verbatim>\<open>str.lower()\<close> turns into \<^verbatim>\<open>k\<close>, can
  make the lowered text one of the three keys of \<^verbatim>\<open>Account.__init__\<close>.
\<close>

definition lower_char :: "char \<Rightarrow> char" where
  "lower_char c =
     (let n = (of_char c :: nat)
      in if (65 \<le> n \<and> n \<le> 90) \<or> (192 \<le> n \<and> n \<le> 222 \<and> n \<noteq> 215) then char_of (n + 32)
         else c)"

definition lower :: "string \<Rightarrow> string" where
  "lower s = map lower_char s"

definition strategy_for :: "string \<Rightarrow> interest_strategy" where
  "strategy_for atype =
     (case map_of [(''savings'', SavingsInterest), (''checking'', CheckingInterest),
                   (''loan'', LoanInterest)] (lower atype) of
        Some s \<Rightarrow> s
      | None \<Rightarrow> SavingsInterest)"

definition Account :: "string \<Rightarrow> string \<Rightarrow> string \<Rightarrow> 'ts account" where
  "Account aid own atype =
     \<lparr>account_id = aid, owner = own, account_type = atype, balance = Fin 0,
      transaction_history = [], observers = [], interest_strategy = strategy_for atype\<rparr>"

definition attach :: "observer \<Rightarrow> 'ts account \<Rightarrow> 'ts account" where
  "attach ob self = self\<lparr>observers := observers self @ [ob]\<rparr>"

text \<open>
  \<^verbatim>\<open>Account.deposit\<close> and \<^verbatim>\<open>Account.withdraw\<close> return the boolean and the account as
  the call leaves it. The observers only print the transaction; the console is not part
  of the state.
\<close>

definition deposit :: "pyfloat \<Rightarrow> 'ts \<Rightarrow> 'ts account \<Rightarrow> bool \<times> 'ts account" where
  "deposit amt now self =
     (if fle amt (Fin 0) then (False, self)
      else (True, self\<lparr>balance := fadd (balance self) amt,
                        transaction_history := transaction_history self @
                          [\<lparr>type = ''DEPOSIT'', amount = amt, timestamp = now\<rparr>]\<rparr>))"

definition withdraw :: "pyfloat \<Rightarrow> 'ts \<Rightarrow> 'ts account \<Rightarrow> bool \<times> 'ts account" where
  "withdraw amt now self =
     (if fle amt (Fin 0) \<or> fgt amt (balance self) then (False, self)
      else (True, self\<lparr>balance := fsub (balance self) amt,
                        transaction_history := transaction_history self @
                          [\<lparr>type = ''WITHDRAWAL'', amount = amt, timestamp = now\<rparr>]\<rparr>))"

text \<open>
  \<^verbatim>\<open>Account.apply_interest\<close> ignores what \<^verbatim>\<open>deposit\<close> returns and returns the interest it
  computed.
\<close>

definition apply_interest :: "'ts \<Rightarrow> 'ts account \<Rightarrow> pyfloat \<times> 'ts account" where
  "apply_interest now self =
     (let interest = calculate_interest (interest_strategy self) (balance self)
      in if fne interest (Fin 0) then (interest, snd (deposit interest now self))
         else (interest, self))"

section \<open>Commands\<close>

text \<open>
  \<^verbatim>\<open>BankDatabase.accounts\<close> is a dictionary from account id to account object, in
  insertion order. A command holds references to account objects; every account object
  lives in the dictionary under its id and is never removed or replaced while commands
  exist, so a reference is modelled by the id, and mutating the object by updating the
  entry in place.
\<close>

type_synonym 'ts accounts = "(string \<times> 'ts account) list"

datatype command =
    DepositCommand string pyfloat
  | WithdrawCommand string pyfloat
  | TransferCommand string string pyfloat

text \<open>
  Calling a method on the referenced account. A reference to no account does not occur
  in the program (a command is built from accounts just looked up); there the call does
  nothing and reports failure.
\<close>

definition on_account ::
  "string \<Rightarrow> ('ts account \<Rightarrow> bool \<times> 'ts account) \<Rightarrow> 'ts accounts \<Rightarrow> bool \<times> 'ts accounts" where
  "on_account r f db =
     (case map_of db r of
        None \<Rightarrow> (False, db)
      | Some a \<Rightarrow> (fst (f a), AList.update r (snd (f a)) db))"

text \<open>
  \<^verbatim>\<open>execute\<close> and \<^verbatim>\<open>undo\<close> take the two instants their (at most two) account
  operations read from the clock.
\<close>

fun execute :: "command \<Rightarrow> 'ts \<Rightarrow> 'ts \<Rightarrow> 'ts accounts \<Rightarrow> bool \<times> 'ts accounts" where
  "execute (DepositCommand r amt) t1 t2 db = on_account r (deposit amt t1) db"
| "execute (WithdrawCommand r amt) t1 t2 db = on_account r (withdraw amt t1) db"
| "execute (TransferCommand from_acct to_acct amt) t1 t2 db =
     (if fst (on_account from_acct (withdraw amt t1) db)
      then on_account to_acct (deposit amt t2) (snd (on_account from_acct (withdraw amt t1) db))
      else (False, snd (on_account from_acct (withdraw amt t1) db)))"

fun undo :: "command \<Rightarrow> 'ts \<Rightarrow> 'ts \<Rightarrow> 'ts accounts \<Rightarrow> bool \<times> 'ts accounts" where
  "undo (DepositCommand r amt) t1 t2 db = on_account r (withdraw amt t1) db"
| "undo (WithdrawCommand r amt) t1 t2 db = on_account r (deposit amt t1) db"
| "undo (TransferCommand from_acct to_acct amt) t1 t2 db =
     (if fst (on_account to_acct (withdraw amt t1) db)
      then on_account from_acct (deposit amt t2) (snd (on_account to_acct (withdraw amt t1) db))
      else (False, snd (on_account to_acct (withdraw amt t1) db)))"

text \<open>No rounding happens in a float addition or subtraction of finite floats.\<close>

fun exact_add :: "pyfloat \<Rightarrow> pyfloat \<Rightarrow> bool" where
  "exact_add (Fin a) (Fin b) = (round64 (a + b) = Fin (a + b))"
| "exact_add _ _ = False"

fun exact_sub :: "pyfloat \<Rightarrow> pyfloat \<Rightarrow> bool" where
  "exact_sub (Fin a) (Fin b) = (round64 (a - b) = Fin (a - b))"
| "exact_sub _ _ = False"

text \<open>\<^verbatim>\<open>cmd.execute()\<close> followed at once by \<^verbatim>\<open>cmd.undo()\<close>; the result is that of the undo.\<close>

definition execute_then_undo ::
  "command \<Rightarrow> 'ts \<Rightarrow> 'ts \<Rightarrow> 'ts \<Rightarrow> 'ts \<Rightarrow> 'ts accounts \<Rightarrow> bool \<times> 'ts accounts" where
  "execute_then_undo c t1 t2 t3 t4 db = undo c t3 t4 (snd (execute c t1 t2 db))"

text \<open>
  The second database has the accounts of the first, under the same ids in the same order,
  and the history of each begins with the history it had in the first: records have been
  appended to it, and none removed or changed.
\<close>

definition history_kept :: "'ts accounts \<Rightarrow> 'ts accounts \<Rightarrow> bool" where
  "history_kept db db' \<longleftrightarrow>
     map fst db' = map fst db \<and>
     list_all
       (\<lambda>k. case map_of db k of
              None \<Rightarrow> True
            | Some a \<Rightarrow>
                (case map_of db' k of
                   None \<Rightarrow> False
                 | Some a' \<Rightarrow> prefix (transaction_history a) (transaction_history a')))
       (map fst db)"

section \<open>The interactive system\<close>

text \<open>
  Of \<^verbatim>\<open>InteractiveBankSystem\<close> the state is the database and the undo stack; what a
  menu entry prints is returned as a message. The text typed for an amount is given as
  what \<^verbatim>\<open>float(input(...))\<close> makes of it: \<open>None\<close> when it raises \<^verbatim>\<open>ValueError\<close>.
\<close>

record 'ts bank_system =
  database :: "'ts accounts"
  undo_stack :: "command list"

datatype message =
    AccountNotFound
  | NotANumber
  | DepositSuccessful
  | InvalidDepositAmount
  | WithdrawalSuccessful
  | InvalidWithdrawal
  | TransferSuccessful
  | InvalidTransfer
  | NoTransactionsToUndo
  | SuccessfullyUndone
  | FailedToUndo

definition get_account :: "'ts accounts \<Rightarrow> string \<Rightarrow> 'ts account option" where
  "get_account db aid = map_of db aid"

definition add_account :: "'ts account \<Rightarrow> 'ts accounts \<Rightarrow> 'ts accounts" where
  "add_account a db = AList.update (account_id a) a db"

text \<open>
  The three menu entries \<^verbatim>\<open>deposit\<close>, \<^verbatim>\<open>withdraw\<close> and \<^verbatim>\<open>transfer\<close> of the system differ
  in the command they build and in their messages only.
\<close>

definition run_command ::
  "command \<Rightarrow> message \<Rightarrow> message \<Rightarrow> 'ts \<Rightarrow> 'ts \<Rightarrow> 'ts bank_system \<Rightarrow> message \<times> 'ts bank_system" where
  "run_command cmd good bad t1 t2 s =
     (if fst (execute cmd t1 t2 (database s))
      then (good, s\<lparr>database := snd (execute cmd t1 t2 (database s)),
                    undo_stack := undo_stack s @ [cmd]\<rparr>)
      else (bad, s\<lparr>database := snd (execute cmd t1 t2 (database s))\<rparr>))"

definition system_deposit ::
  "string \<Rightarrow> pyfloat option \<Rightarrow> 'ts \<Rightarrow> 'ts \<Rightarrow> 'ts bank_system \<Rightarrow> message \<times> 'ts bank_system" where
  "system_deposit aid inp t1 t2 s =
     (case get_account (database s) aid of
        None \<Rightarrow> (AccountNotFound, s)
      | Some _ \<Rightarrow>
          (case inp of
             None \<Rightarrow> (NotANumber, s)
           | Some amt \<Rightarrow>
               run_command (DepositCommand aid amt) DepositSuccessful InvalidDepositAmount t1 t2 s))"

definition system_withdraw ::
  "string \<Rightarrow> pyfloat option \<Rightarrow> 'ts \<Rightarrow> 'ts \<Rightarrow> 'ts bank_system \<Rightarrow> message \<times> 'ts bank_system" where
  "system_withdraw aid inp t1 t2 s =
     (case get_account (database s) aid of
        None \<Rightarrow> (AccountNotFound, s)
      | Some _ \<Rightarrow>
          (case inp of
             None \<Rightarrow> (NotANumber, s)
           | Some amt \<Rightarrow>
               run_command (WithdrawCommand aid amt) WithdrawalSuccessful InvalidWithdrawal t1 t2 s))"

definition system_transfer ::
  "string \<Rightarrow> string \<Rightarrow> pyfloat option \<Rightarrow> 'ts \<Rightarrow> 'ts \<Rightarrow> 'ts bank_system
     \<Rightarrow> message \<times> 'ts bank_system" where
  "system_transfer from_id to_id inp t1 t2 s =
     (if get_account (database s) from_id = None \<or> get_account (database s) to_id = None
      then (AccountNotFound, s)
      else (case inp of
              None \<Rightarrow> (NotANumber, s)
            | Some amt \<Rightarrow>
                run_command (TransferCommand from_id to_id amt) TransferSuccessful InvalidTransfer
                  t1 t2 s))"

definition undo_transaction ::
  "'ts \<Rightarrow> 'ts \<Rightarrow> 'ts bank_system \<Rightarrow> message \<times> 'ts bank_system" where
  "undo_transaction t1 t2 s =
     (if undo_stack s = [] then (NoTransactionsToUndo, s)
      else let cmd = last (undo_stack s);
               popped = s\<lparr>undo_stack := butlast (undo_stack s)\<rparr>
           in (if fst (undo cmd t1 t2 (database s)) then SuccessfullyUndone else FailedToUndo,
               popped\<lparr>database := snd (undo cmd t1 t2 (database s))\<rparr>))"

text \<open>A menu request that builds a command, and the dispatch of \<^verbatim>\<open>run\<close> on it.\<close>

datatype request =
    Deposit string "pyfloat option"
  | Withdraw string "pyfloat option"
  | Transfer string string "pyfloat option"

fun perform :: "request \<Rightarrow> 'ts \<Rightarrow> 'ts \<Rightarrow> 'ts bank_system \<Rightarrow> message \<times> 'ts bank_system" where
  "perform (Deposit aid inp) t1 t2 s = system_deposit aid inp t1 t2 s"
| "perform (Withdraw aid inp) t1 t2 s = system_withdraw aid inp t1 t2 s"
| "perform (Transfer from_id to_id inp) t1 t2 s = system_transfer from_id to_id inp t1 t2 s"

fun successful :: "message \<Rightarrow> bool" where
  "successful DepositSuccessful = True"
| "successful WithdrawalSuccessful = True"
| "successful TransferSuccessful = True"
| "successful _ = False"

text \<open>The command a request builds, once its amount has been read.\<close>

fun command_of :: "request \<Rightarrow> command option" where
  "command_of (Deposit aid inp) = map_option (DepositCommand aid) inp"
| "command_of (Withdraw aid inp) = map_option (WithdrawCommand aid) inp"
| "command_of (Transfer from_id to_id inp) = map_option (TransferCommand from_id to_id) inp"

section \<open>Example data\<close>

text \<open>Two accounts with timestamps in \<open>nat\<close>, for evaluating the operations.\<close>

definition acct_A :: "nat account" where
  "acct_A = (Account ''A'' ''Ann'' ''savings'')\<lparr>balance := Fin 100\<rparr>"

definition acct_B :: "nat account" where
  "acct_B = (Account ''B'' ''Bob'' ''checking'')\<lparr>balance := Fin 50\<rparr>"

definition example_db :: "nat accounts" where
  "example_db = [(''A'', acct_A), (''B'', acct_B)]"

text \<open>An account restored from a snapshot that records a negative balance.\<close>

definition acct_N :: "nat account" where
  "acct_N = (Account ''N'' ''Ned'' ''savings'')\<lparr>balance := Fin (- 100)\<rparr>"

text \<open>
  A database with an account holding \<open>0.1\<close> and the account of negative balance.
\<close>

definition acct_C :: "nat account" where
  "acct_C = (Account ''C'' ''Cy'' ''savings'')\<lparr>balance := float_of (1 / 10)\<rparr>"

definition db_C :: "nat accounts" where
  "db_C = [(''C'', acct_C), (''N'', acct_N)]"

text \<open>
  A system on the two accounts with nothing to undo, and the states it goes through when
  \<open>50\<close> is deposited into \<open>A\<close>, \<open>20\<close> withdrawn from \<open>B\<close>, \<open>30\<close> transferred from \<open>A\<close> to
  \<open>B\<close>, and the three operations are undone.
\<close>

definition example_system :: "nat bank_system" where
  "example_system = \<lparr>database = example_db, undo_stack = []\<rparr>"

definition example_s1 :: "nat bank_system" where
  "example_s1 =
     \<lparr>database =
        [(''A'', acct_A\<lparr>balance := Fin 150,
            transaction_history := [\<lparr>type = ''DEPOSIT'', amount = Fin 50, timestamp = 1\<rparr>]\<rparr>),
         (''B'', acct_B)],
      undo_stack = [DepositCommand ''A'' (Fin 50)]\<rparr>"

definition example_s2 :: "nat bank_system" where
  "example_s2 =
     \<lparr>database =
        [(''A'', acct_A\<lparr>balance := Fin 150,
            transaction_history := [\<lparr>type = ''DEPOSIT'', amount = Fin 50, timestamp = 1\<rparr>]\<rparr>),
         (''B'', acct_B\<lparr>balance := Fin 30,
            transaction_history := [\<lparr>type = ''WITHDRAWAL'', amount = Fin 20, timestamp = 3\<rparr>]\<rparr>)],
      undo_stack = [DepositCommand ''A'' (Fin 50), WithdrawCommand ''B'' (Fin 20)]\<rparr>"

definition example_s3 :: "nat bank_system" where
  "example_s3 =
     \<lparr>database =
        [(''A'', acct_A\<lparr>balance := Fin 120,
            transaction_history :=
              [\<lparr>type = ''DEPOSIT'', amount = Fin 50, timestamp = 1\<rparr>,
               \<lparr>type = ''WITHDRAWAL'', amount = Fin 30, timestamp = 5\<rparr>]\<rparr>),
         (''B'', acct_B\<lparr>balance := Fin 60,
            transaction_history :=
              [\<lparr>type = ''WITHDRAWAL'', amount = Fin 20, timestamp = 3\<rparr>,
               \<lparr>type = ''DEPOSIT'', amount = Fin 30, timestamp = 6\<rparr>]\<rparr>)],
      undo_stack = [DepositCommand ''A'' (Fin 50), WithdrawCommand ''B'' (Fin 20),
                    TransferCommand ''A'' ''B'' (Fin 30)]\<rparr>"

definition example_u1 :: "nat bank_system" where
  "example_u1 =
     \<lparr>database =
        [(''A'', acct_A\<lparr>balance := Fin 150,
            transaction_history :=
              [\<lparr>type = ''DEPOSIT'', amount = Fin 50, timestamp = 1\<rparr>,
               \<lparr>type = ''WITHDRAWAL'', amount = Fin 30, timestamp = 5\<rparr>,
               \<lparr>type = ''DEPOSIT'', amount = Fin 30, timestamp = 8\<rparr>]\<rparr>),
         (''B'', acct_B\<lparr>balance := Fin 30,
            transaction_history :=
              [\<lparr>type = ''WITHDRAWAL'', amount = Fin 20, timestamp = 3\<rparr>,
               \<lparr>type = ''DEPOSIT'', amount = Fin 30, timestamp = 6\<rparr>,
               \<lparr>type = ''WITHDRAWAL'', amount = Fin 30, timestamp = 7\<rparr>]\<rparr>)],
      undo_stack = [DepositCommand ''A'' (Fin 50), WithdrawCommand ''B'' (Fin 20)]\<rparr>"

definition example_u2 :: "nat bank_system" where
  "example_u2 =
     \<lparr>database =
        [(''A'', acct_A\<lparr>balance := Fin 150,
            transaction_history :=
              [\<lparr>type = ''DEPOSIT'', amount = Fin 50, timestamp = 1\<rparr>,
               \<lparr>type = ''WITHDRAWAL'', amount = Fin 30, timestamp = 5\<rparr>,
               \<lparr>type = ''DEPOSIT'', amount = Fin 30, timestamp = 8\<rparr>]\<rparr>),
         (''B'', acct_B\<lparr>balance := Fin 50,
            transaction_history :=
              [\<lparr>type = ''WITHDRAWAL'', amount = Fin 20, timestamp = 3\<rparr>,
               \<lparr>type = ''DEPOSIT'', amount = Fin 30, timestamp = 6\<rparr>,
               \<lparr>type = ''WITHDRAWAL'', amount = Fin 30, timestamp = 7\<rparr>,
               \<lparr>type = ''DEPOSIT'', amount = Fin 20, timestamp = 9\<rparr>]\<rparr>)],
      undo_stack = [DepositCommand ''A'' (Fin 50)]\<rparr>"

definition example_u3 :: "nat bank_system" where
  "example_u3 =
     \<lparr>database =
        [(''A'', acct_A\<lparr>balance := Fin 100,
            transaction_history :=
              [\<lparr>type = ''DEPOSIT'', amount = Fin 50, timestamp = 1\<rparr>,
               \<lparr>type = ''WITHDRAWAL'', amount = Fin 30, timestamp = 5\<rparr>,
               \<lparr>type = ''DEPOSIT'', amount = Fin 30, timestamp = 8\<rparr>,
               \<lparr>type = ''WITHDRAWAL'', amount = Fin 50, timestamp = 11\<rparr>]\<rparr>),
         (''B'', acct_B\<lparr>balance := Fin 50,
            transaction_history :=
              [\<lparr>type = ''WITHDRAWAL'', amount = Fin 20, timestamp = 3\<rparr>,
               \<lparr>type = ''DEPOSIT'', amount = Fin 30, timestamp = 6\<rparr>,
               \<lparr>type = ''WITHDRAWAL'', amount = Fin 30, timestamp = 7\<rparr>,
               \<lparr>type = ''DEPOSIT'', amount = Fin 20, timestamp = 9\<rparr>]\<rparr>)],
      undo_stack = []\<rparr>"

text \<open>The system on the account of negative balance, after \<open>50\<close> has been deposited.\<close>

definition example_n1 :: "nat bank_system" where
  "example_n1 =
     \<lparr>database =
        [(''N'', acct_N\<lparr>balance := Fin (- 50),
            transaction_history := [\<lparr>type = ''DEPOSIT'', amount = Fin 50, timestamp = 1\<rparr>]\<rparr>)],
      undo_stack = [DepositCommand ''N'' (Fin 50)]\<rparr>"

section \<open>Facts about the float model\<close>

text \<open>The threshold as a numeral, so that evaluating a rounding does not recompute the power.\<close>

lemma overflow_threshold_numeral [code]:
  "overflow_threshold =
     179769313486231590772930519078902473361797697894230657273430081157732675805500963132708477322407536021120113879871393357658789768814416622492847430639474124377767893424865485276302219601246094119453082952085005768838150682342462881473913110540827237163350510684586298239947245938479716304835356329624224137216"
  by (simp add: overflow_threshold_def)

lemma fgt_zero_not_fle: "fgt x (Fin 0) \<Longrightarrow> \<not> fle x (Fin 0)"
  by (cases x) auto

lemma round64_0: "round64 0 = Fin 0"
  by (simp add: round64_def)

lemma round64_150: "round64 150 = Fin 150"
  by code_simp

lemma round64_100: "round64 100 = Fin 100"
  by code_simp

lemma round64_50: "round64 50 = Fin 50"
  by code_simp

lemma round64_more:
  "round64 30 = Fin 30" "round64 60 = Fin 60" "round64 120 = Fin 120" "round64 (- 50) = Fin (- 50)"
  by code_simp+

lemma tenth_evals:
  "float_of (1 / 10) = Fin (3602879701896397 / 36028797018963968)"
  "float_of (1 / 5) = Fin (3602879701896397 / 18014398509481984)"
  "fadd (Fin (3602879701896397 / 36028797018963968)) (Fin (3602879701896397 / 18014398509481984)) =
     Fin (1351079888211149 / 4503599627370496)"
  "fsub (Fin (1351079888211149 / 4503599627370496)) (Fin (3602879701896397 / 18014398509481984)) =
     Fin (1801439850948199 / 18014398509481984)"
  "fadd (Fin (- 100)) (Fin 50) = Fin (- 50)"
  by code_simp+

section \<open>Deposit and withdrawal\<close>

text \<open>
  C2. \<^verbatim>\<open>deposit(amount)\<close> returns false exactly when \<^verbatim>\<open>amount <= 0\<close>, and then the account
  is unchanged; when \<^verbatim>\<open>amount > 0\<close> it returns true, the balance is the float sum of the
  old balance and the amount, exactly one DEPOSIT transaction of that amount is appended
  to the history, and nothing else of the account changes.
\<close>

theorem deposit_spec:
  "(\<not> fst (deposit amt now self) \<longleftrightarrow> fle amt (Fin 0)) \<and>
   (fle amt (Fin 0) \<longrightarrow> snd (deposit amt now self) = self) \<and>
   (fgt amt (Fin 0) \<longrightarrow>
      fst (deposit amt now self) \<and>
      snd (deposit amt now self) =
        self\<lparr>balance := fadd (balance self) amt,
             transaction_history := transaction_history self @
               [\<lparr>type = ''DEPOSIT'', amount = amt, timestamp = now\<rparr>]\<rparr>)"
  by (simp add: deposit_def fgt_zero_not_fle)

theorem deposit_spec_witness:
  "fgt (Fin 50) (Fin 0) \<and> fle (Fin (- 1)) (Fin 0) \<and>
   fst (deposit (Fin 50) (7::nat) ((Account ''A1'' ''Ann'' ''savings'')\<lparr>balance := Fin 100\<rparr>)) \<and>
   balance (snd (deposit (Fin 50) (7::nat)
     ((Account ''A1'' ''Ann'' ''savings'')\<lparr>balance := Fin 100\<rparr>))) = Fin 150 \<and>
   snd (deposit (Fin (- 1)) (7::nat) (Account ''A1'' ''Ann'' ''savings'')) =
     Account ''A1'' ''Ann'' ''savings''"
  using deposit_spec [of "Fin 50" "7::nat" "(Account ''A1'' ''Ann'' ''savings'')\<lparr>balance := Fin 100\<rparr>"]
        deposit_spec [of "Fin (- 1)" "7::nat" "Account ''A1'' ''Ann'' ''savings''"]
  by (simp add: round64_150)

text \<open>
  C3. \<^verbatim>\<open>withdraw(amount)\<close> fails exactly when \<^verbatim>\<open>amount <= 0\<close> or \<^verbatim>\<open>amount > balance\<close>, and
  then the account is unchanged (no transaction is appended); otherwise it returns true,
  the balance is the float difference of the old balance and the amount, exactly one
  WITHDRAWAL transaction of that amount is appended, and nothing else changes.
\<close>

theorem withdraw_spec:
  "(\<not> fst (withdraw amt now self) \<longleftrightarrow> fle amt (Fin 0) \<or> fgt amt (balance self)) \<and>
   (fle amt (Fin 0) \<or> fgt amt (balance self) \<longrightarrow> snd (withdraw amt now self) = self) \<and>
   (\<not> (fle amt (Fin 0) \<or> fgt amt (balance self)) \<longrightarrow>
      fst (withdraw amt now self) \<and>
      snd (withdraw amt now self) =
        self\<lparr>balance := fsub (balance self) amt,
             transaction_history := transaction_history self @
               [\<lparr>type = ''WITHDRAWAL'', amount = amt, timestamp = now\<rparr>]\<rparr>)"
  by (simp add: withdraw_def)

theorem withdraw_spec_witness:
  "fgt (Fin 150) (balance ((Account ''A1'' ''Ann'' ''savings'')\<lparr>balance := Fin 100\<rparr> :: nat account)) \<and>
   snd (withdraw (Fin 150) (7::nat) ((Account ''A1'' ''Ann'' ''savings'')\<lparr>balance := Fin 100\<rparr>)) =
     (Account ''A1'' ''Ann'' ''savings'')\<lparr>balance := Fin 100\<rparr> \<and>
   \<not> (fle (Fin 50) (Fin 0) \<or>
      fgt (Fin 50) (balance ((Account ''A1'' ''Ann'' ''savings'')\<lparr>balance := Fin 100\<rparr> :: nat account))) \<and>
   fst (withdraw (Fin 50) (7::nat) ((Account ''A1'' ''Ann'' ''savings'')\<lparr>balance := Fin 100\<rparr>)) \<and>
   balance (snd (withdraw (Fin 50) (7::nat)
     ((Account ''A1'' ''Ann'' ''savings'')\<lparr>balance := Fin 100\<rparr>))) = Fin 50"
  using withdraw_spec [of "Fin 150" "7::nat" "(Account ''A1'' ''Ann'' ''savings'')\<lparr>balance := Fin 100\<rparr>"]
        withdraw_spec [of "Fin 50" "7::nat" "(Account ''A1'' ''Ann'' ''savings'')\<lparr>balance := Fin 100\<rparr>"]
  by (simp add: round64_50 Account_def)

section \<open>Commands on the accounts\<close>

lemma withdraw_ok_deposit_ok: "fst (withdraw amt t a) \<Longrightarrow> fst (deposit amt t' b)"
  by (simp add: withdraw_def deposit_def split: if_splits)

lemma withdraw_fail_same: "\<not> fst (withdraw amt now self) \<Longrightarrow> snd (withdraw amt now self) = self"
  by (auto simp add: withdraw_def)

lemma withdraw_ok_snd:
  "fst (withdraw amt now self) \<Longrightarrow>
   snd (withdraw amt now self) =
     self\<lparr>balance := fsub (balance self) amt,
          transaction_history := transaction_history self @
            [\<lparr>type = ''WITHDRAWAL'', amount = amt, timestamp = now\<rparr>]\<rparr>"
  by (auto simp add: withdraw_def split: if_splits)

lemma deposit_fail_same: "\<not> fst (deposit amt now self) \<Longrightarrow> snd (deposit amt now self) = self"
  by (auto simp add: deposit_def)

lemma deposit_ok_snd:
  "fst (deposit amt now self) \<Longrightarrow>
   snd (deposit amt now self) =
     self\<lparr>balance := fadd (balance self) amt,
          transaction_history := transaction_history self @
            [\<lparr>type = ''DEPOSIT'', amount = amt, timestamp = now\<rparr>]\<rparr>"
  by (auto simp add: deposit_def split: if_splits)

lemma on_account_Some:
  "map_of db r = Some a \<Longrightarrow> on_account r f db = (fst (f a), AList.update r (snd (f a)) db)"
  by (simp add: on_account_def)

lemma update_same: "map_of db r = Some a \<Longrightarrow> AList.update r a db = db"
  by (induction db) auto

lemma example_lookup:
  "map_of example_db ''A'' = Some acct_A" "map_of example_db ''B'' = Some acct_B"
  by (simp_all add: example_db_def)

lemma example_balance: "balance acct_A = Fin 100" "balance acct_B = Fin 50"
  by (simp_all add: acct_A_def acct_B_def)

text \<open>
  C4. For distinct accounts \<open>A\<close> (source) and \<open>B\<close> (destination) of the database,
  \<^verbatim>\<open>TransferCommand(A, B, x).execute()\<close> succeeds exactly when the withdrawal from \<open>A\<close>
  succeeds; when that fails nothing is touched (the deposit is not attempted) and the
  result is failure; on success \<open>A\<close>'s balance is decreased by \<open>x\<close> with one WITHDRAWAL of
  \<open>x\<close> appended, \<open>B\<close>'s balance is increased by \<open>x\<close> with one DEPOSIT of \<open>x\<close> appended,
  and no other account changes.
\<close>

theorem transfer_execute_spec:
  assumes "map_of db from_acct = Some A" and "map_of db to_acct = Some B"
    and "from_acct \<noteq> to_acct"
  shows "fst (execute (TransferCommand from_acct to_acct x) t1 t2 db) = fst (withdraw x t1 A) \<and>
    (\<not> fst (withdraw x t1 A) \<longrightarrow>
       execute (TransferCommand from_acct to_acct x) t1 t2 db = (False, db)) \<and>
    (fst (execute (TransferCommand from_acct to_acct x) t1 t2 db) \<longrightarrow>
      map_of (snd (execute (TransferCommand from_acct to_acct x) t1 t2 db)) =
        (map_of db)
          (from_acct \<mapsto> A\<lparr>balance := fsub (balance A) x,
               transaction_history := transaction_history A @
                 [\<lparr>type = ''WITHDRAWAL'', amount = x, timestamp = t1\<rparr>]\<rparr>,
           to_acct \<mapsto> B\<lparr>balance := fadd (balance B) x,
               transaction_history := transaction_history B @
                 [\<lparr>type = ''DEPOSIT'', amount = x, timestamp = t2\<rparr>]\<rparr>))"
proof -
  let ?w = "withdraw x t1 A"
  let ?e = "execute (TransferCommand from_acct to_acct x) t1 t2 db"
  have w: "on_account from_acct (withdraw x t1) db = (fst ?w, AList.update from_acct (snd ?w) db)"
    using assms(1) by (rule on_account_Some)
  have d: "on_account to_acct (deposit x t2) (AList.update from_acct A' db) =
      (fst (deposit x t2 B),
       AList.update to_acct (snd (deposit x t2 B)) (AList.update from_acct A' db))" for A'
    using assms(2,3) by (simp add: on_account_Some update_conv')
  have 1: "fst ?e = fst ?w"
    using withdraw_ok_deposit_ok [of x t1 A t2 B] by (simp add: w d)
  have 2: "\<not> fst ?w \<longrightarrow> ?e = (False, db)"
    using assms(1) by (simp add: w withdraw_fail_same update_same)
  have 3: "map_of (snd ?e) =
        (map_of db)
          (from_acct \<mapsto> A\<lparr>balance := fsub (balance A) x,
               transaction_history := transaction_history A @
                 [\<lparr>type = ''WITHDRAWAL'', amount = x, timestamp = t1\<rparr>]\<rparr>,
           to_acct \<mapsto> B\<lparr>balance := fadd (balance B) x,
               transaction_history := transaction_history B @
                 [\<lparr>type = ''DEPOSIT'', amount = x, timestamp = t2\<rparr>]\<rparr>)" if "fst ?e"
  proof -
    from that have ok: "fst ?w" and okd: "fst (deposit x t2 B)"
      by (simp_all add: w d split: if_splits)
    then show ?thesis
      by (simp add: w d update_conv' withdraw_ok_snd deposit_ok_snd)
  qed
  from 1 2 3 show ?thesis by blast
qed

theorem transfer_execute_spec_witness:
  "map_of example_db ''A'' = Some acct_A \<and> map_of example_db ''B'' = Some acct_B \<and>
   ''A'' \<noteq> ''B'' \<and>
   fst (execute (TransferCommand ''A'' ''B'' (Fin 50)) 1 2 example_db) \<and>
   map_of (snd (execute (TransferCommand ''A'' ''B'' (Fin 50)) 1 2 example_db)) =
     (map_of example_db)
       (''A'' \<mapsto> acct_A\<lparr>balance := Fin 50,
            transaction_history := [\<lparr>type = ''WITHDRAWAL'', amount = Fin 50, timestamp = 1\<rparr>]\<rparr>,
        ''B'' \<mapsto> acct_B\<lparr>balance := Fin 100,
            transaction_history := [\<lparr>type = ''DEPOSIT'', amount = Fin 50, timestamp = 2\<rparr>]\<rparr>) \<and>
   execute (TransferCommand ''A'' ''B'' (Fin 500)) 1 2 example_db = (False, example_db)"
proof -
  have neq: "''A'' \<noteq> ''B''" by simp
  have ok: "fst (withdraw (Fin 50) (1::nat) acct_A)"
    by (simp add: withdraw_def example_balance)
  have ko: "\<not> fst (withdraw (Fin 500) (1::nat) acct_A)"
    by (simp add: withdraw_def example_balance)
  have h: "transaction_history acct_A = []" "transaction_history acct_B = []"
    by (simp_all add: acct_A_def acct_B_def Account_def)
  show ?thesis
    using transfer_execute_spec [OF example_lookup neq, of "Fin 50" 1 2]
      transfer_execute_spec [OF example_lookup neq, of "Fin 500" 1 2] ok ko
    by (simp add: example_lookup example_balance h round64_50 round64_100)
qed

lemma first_leg_fails:
  assumes "map_of db p = Some P" and "\<not> fst (withdraw x t1 P)"
  shows "on_account p (withdraw x t1) db = (False, db)"
  using assms by (simp add: on_account_Some withdraw_fail_same update_same)

lemma both_legs:
  assumes "map_of db p = Some P" and "map_of db q = Some Q" and "fst (withdraw x t1 P)"
  shows "fst (on_account p (withdraw x t1) db)"
    and "fst (on_account q (deposit x t2) (snd (on_account p (withdraw x t1) db)))"
    and "p \<noteq> q \<Longrightarrow>
      map_of (snd (on_account q (deposit x t2) (snd (on_account p (withdraw x t1) db)))) =
        (map_of db)
          (p \<mapsto> P\<lparr>balance := fsub (balance P) x,
               transaction_history := transaction_history P @
                 [\<lparr>type = ''WITHDRAWAL'', amount = x, timestamp = t1\<rparr>]\<rparr>,
           q \<mapsto> Q\<lparr>balance := fadd (balance Q) x,
               transaction_history := transaction_history Q @
                 [\<lparr>type = ''DEPOSIT'', amount = x, timestamp = t2\<rparr>]\<rparr>)"
    and "p = q \<Longrightarrow>
      map_of (snd (on_account q (deposit x t2) (snd (on_account p (withdraw x t1) db)))) =
        (map_of db)
          (p \<mapsto> P\<lparr>balance := fadd (fsub (balance P) x) x,
               transaction_history := transaction_history P @
                 [\<lparr>type = ''WITHDRAWAL'', amount = x, timestamp = t1\<rparr>,
                  \<lparr>type = ''DEPOSIT'', amount = x, timestamp = t2\<rparr>]\<rparr>)"
proof -
  let ?P1 = "snd (withdraw x t1 P)"
  have w: "on_account p (withdraw x t1) db = (True, AList.update p ?P1 db)"
    using assms(1,3) by (simp add: on_account_Some)
  show "fst (on_account p (withdraw x t1) db)"
    by (simp add: w)
  have dep: "fst (deposit x t2 D)" for D :: "'a account"
    using assms(3) by (rule withdraw_ok_deposit_ok)
  have look: "map_of (AList.update p ?P1 db) q = Some (if q = p then ?P1 else Q)"
    using assms(2) by (simp add: update_conv')
  have d: "on_account q (deposit x t2) (AList.update p ?P1 db) =
      (True, AList.update q (snd (deposit x t2 (if q = p then ?P1 else Q))) (AList.update p ?P1 db))"
    using dep [of "if q = p then ?P1 else Q"] by (simp add: on_account_Some [OF look])
  have wd: "on_account q (deposit x t2) (snd (on_account p (withdraw x t1) db)) =
      (True, AList.update q (snd (deposit x t2 (if q = p then ?P1 else Q))) (AList.update p ?P1 db))"
    by (simp only: w snd_conv d)
  show "fst (on_account q (deposit x t2) (snd (on_account p (withdraw x t1) db)))"
    by (simp only: wd fst_conv)
  show "map_of (snd (on_account q (deposit x t2) (snd (on_account p (withdraw x t1) db)))) =
        (map_of db)
          (p \<mapsto> P\<lparr>balance := fsub (balance P) x,
               transaction_history := transaction_history P @
                 [\<lparr>type = ''WITHDRAWAL'', amount = x, timestamp = t1\<rparr>]\<rparr>,
           q \<mapsto> Q\<lparr>balance := fadd (balance Q) x,
               transaction_history := transaction_history Q @
                 [\<lparr>type = ''DEPOSIT'', amount = x, timestamp = t2\<rparr>]\<rparr>)" if "p \<noteq> q"
    unfolding wd using that assms(3) dep [of Q]
    by (simp add: update_conv' withdraw_ok_snd deposit_ok_snd)
  show "map_of (snd (on_account q (deposit x t2) (snd (on_account p (withdraw x t1) db)))) =
        (map_of db)
          (p \<mapsto> P\<lparr>balance := fadd (fsub (balance P) x) x,
               transaction_history := transaction_history P @
                 [\<lparr>type = ''WITHDRAWAL'', amount = x, timestamp = t1\<rparr>,
                  \<lparr>type = ''DEPOSIT'', amount = x, timestamp = t2\<rparr>]\<rparr>)" if "p = q"
    unfolding wd using that assms(3) dep [of ?P1]
    by (simp add: update_conv' withdraw_ok_snd deposit_ok_snd)
qed

text \<open>
  C10. In \<^verbatim>\<open>TransferCommand\<close>, whenever a withdrawal of an amount succeeds, a deposit of the
  same amount succeeds on any account. So for accounts of the database (equal or not)
  \<^verbatim>\<open>execute\<close> returns true exactly when the withdrawal from the source succeeds. When that
  withdrawal fails, \<^verbatim>\<open>execute\<close> returns false and the database is unchanged. When it
  succeeds, the database after \<^verbatim>\<open>execute\<close> is the old one with both legs applied: the
  source's balance decreased by the amount with a WITHDRAWAL appended, the destination's
  balance increased by it with a DEPOSIT appended (for one and the same account: decreased
  and then increased, with both records appended), and every other account as it was.
  The same holds for \<^verbatim>\<open>undo\<close> with the two accounts exchanged. So neither ends with the
  amount withdrawn from one account and not deposited into the other.
\<close>

theorem transfer_no_partial_state:
  assumes "map_of db from_acct = Some A" and "map_of db to_acct = Some B"
  shows
   "(\<forall>a b ta tb. fst (withdraw x ta (a :: 'ts account)) \<longrightarrow> fst (deposit x tb (b :: 'ts account))) \<and>
    fst (execute (TransferCommand from_acct to_acct x) t1 t2 db) = fst (withdraw x t1 A) \<and>
    (\<not> fst (withdraw x t1 A) \<longrightarrow>
       execute (TransferCommand from_acct to_acct x) t1 t2 db = (False, db)) \<and>
    (fst (withdraw x t1 A) \<and> from_acct \<noteq> to_acct \<longrightarrow>
       map_of (snd (execute (TransferCommand from_acct to_acct x) t1 t2 db)) =
         (map_of db)
           (from_acct \<mapsto> A\<lparr>balance := fsub (balance A) x,
                transaction_history := transaction_history A @
                  [\<lparr>type = ''WITHDRAWAL'', amount = x, timestamp = t1\<rparr>]\<rparr>,
            to_acct \<mapsto> B\<lparr>balance := fadd (balance B) x,
                transaction_history := transaction_history B @
                  [\<lparr>type = ''DEPOSIT'', amount = x, timestamp = t2\<rparr>]\<rparr>)) \<and>
    (fst (withdraw x t1 A) \<and> from_acct = to_acct \<longrightarrow>
       map_of (snd (execute (TransferCommand from_acct to_acct x) t1 t2 db)) =
         (map_of db)
           (from_acct \<mapsto> A\<lparr>balance := fadd (fsub (balance A) x) x,
                transaction_history := transaction_history A @
                  [\<lparr>type = ''WITHDRAWAL'', amount = x, timestamp = t1\<rparr>,
                   \<lparr>type = ''DEPOSIT'', amount = x, timestamp = t2\<rparr>]\<rparr>)) \<and>
    fst (undo (TransferCommand from_acct to_acct x) t1 t2 db) = fst (withdraw x t1 B) \<and>
    (\<not> fst (withdraw x t1 B) \<longrightarrow>
       undo (TransferCommand from_acct to_acct x) t1 t2 db = (False, db)) \<and>
    (fst (withdraw x t1 B) \<and> from_acct \<noteq> to_acct \<longrightarrow>
       map_of (snd (undo (TransferCommand from_acct to_acct x) t1 t2 db)) =
         (map_of db)
           (to_acct \<mapsto> B\<lparr>balance := fsub (balance B) x,
                transaction_history := transaction_history B @
                  [\<lparr>type = ''WITHDRAWAL'', amount = x, timestamp = t1\<rparr>]\<rparr>,
            from_acct \<mapsto> A\<lparr>balance := fadd (balance A) x,
                transaction_history := transaction_history A @
                  [\<lparr>type = ''DEPOSIT'', amount = x, timestamp = t2\<rparr>]\<rparr>)) \<and>
    (fst (withdraw x t1 B) \<and> from_acct = to_acct \<longrightarrow>
       map_of (snd (undo (TransferCommand from_acct to_acct x) t1 t2 db)) =
         (map_of db)
           (from_acct \<mapsto> A\<lparr>balance := fadd (fsub (balance A) x) x,
                transaction_history := transaction_history A @
                  [\<lparr>type = ''WITHDRAWAL'', amount = x, timestamp = t1\<rparr>,
                   \<lparr>type = ''DEPOSIT'', amount = x, timestamp = t2\<rparr>]\<rparr>))"
proof -
  let ?e = "execute (TransferCommand from_acct to_acct x) t1 t2 db"
  let ?u = "undo (TransferCommand from_acct to_acct x) t1 t2 db"
  have key: "fst (withdraw x ta a) \<longrightarrow> fst (deposit x tb b)"
    for a b :: "'ts account" and ta tb
    using withdraw_ok_deposit_ok [of x ta a tb b] by simp
  have e0: "?e = (False, db)" if "\<not> fst (withdraw x t1 A)"
    using first_leg_fails [OF assms(1) that] by simp
  have e1: "fst ?e" if "fst (withdraw x t1 A)"
    using both_legs(1) [OF assms that] both_legs(2) [OF assms that, of t2] by simp
  have e2: "map_of (snd ?e) =
         (map_of db)
           (from_acct \<mapsto> A\<lparr>balance := fsub (balance A) x,
                transaction_history := transaction_history A @
                  [\<lparr>type = ''WITHDRAWAL'', amount = x, timestamp = t1\<rparr>]\<rparr>,
            to_acct \<mapsto> B\<lparr>balance := fadd (balance B) x,
                transaction_history := transaction_history B @
                  [\<lparr>type = ''DEPOSIT'', amount = x, timestamp = t2\<rparr>]\<rparr>)"
    if "fst (withdraw x t1 A)" and "from_acct \<noteq> to_acct"
    using both_legs(1) [OF assms that(1)] both_legs(3) [OF assms that, of t2] by simp
  have e3: "map_of (snd ?e) =
         (map_of db)
           (from_acct \<mapsto> A\<lparr>balance := fadd (fsub (balance A) x) x,
                transaction_history := transaction_history A @
                  [\<lparr>type = ''WITHDRAWAL'', amount = x, timestamp = t1\<rparr>,
                   \<lparr>type = ''DEPOSIT'', amount = x, timestamp = t2\<rparr>]\<rparr>)"
    if "fst (withdraw x t1 A)" and "from_acct = to_acct"
    using both_legs(1) [OF assms that(1)] both_legs(4) [OF assms that, of t2] by simp
  have u0: "?u = (False, db)" if "\<not> fst (withdraw x t1 B)"
    using first_leg_fails [OF assms(2) that] by simp
  have u1: "fst ?u" if "fst (withdraw x t1 B)"
    using both_legs(1) [OF assms(2,1) that] both_legs(2) [OF assms(2,1) that, of t2] by simp
  have u2: "map_of (snd ?u) =
         (map_of db)
           (to_acct \<mapsto> B\<lparr>balance := fsub (balance B) x,
                transaction_history := transaction_history B @
                  [\<lparr>type = ''WITHDRAWAL'', amount = x, timestamp = t1\<rparr>]\<rparr>,
            from_acct \<mapsto> A\<lparr>balance := fadd (balance A) x,
                transaction_history := transaction_history A @
                  [\<lparr>type = ''DEPOSIT'', amount = x, timestamp = t2\<rparr>]\<rparr>)"
    if "fst (withdraw x t1 B)" and "from_acct \<noteq> to_acct"
    using both_legs(1) [OF assms(2,1) that(1)] both_legs(3) [OF assms(2,1) that(1), of t2] that(2)
    by simp
  have u3: "map_of (snd ?u) =
         (map_of db)
           (from_acct \<mapsto> A\<lparr>balance := fadd (fsub (balance A) x) x,
                transaction_history := transaction_history A @
                  [\<lparr>type = ''WITHDRAWAL'', amount = x, timestamp = t1\<rparr>,
                   \<lparr>type = ''DEPOSIT'', amount = x, timestamp = t2\<rparr>]\<rparr>)"
    if "fst (withdraw x t1 B)" and "from_acct = to_acct"
  proof -
    from that(2) assms have "B = A" by simp
    then show ?thesis
      using both_legs(1) [OF assms(2,1) that(1)] both_legs(4) [OF assms(2,1) that(1), of t2] that(2)
      by simp
  qed
  have ef: "fst ?e = fst (withdraw x t1 A)"
    using e0 e1 by (cases "fst (withdraw x t1 A)") simp_all
  have uf: "fst ?u = fst (withdraw x t1 B)"
    using u0 u1 by (cases "fst (withdraw x t1 B)") simp_all
  from key ef e0 e2 e3 uf u0 u2 u3 show ?thesis by blast
qed

theorem transfer_no_partial_state_witness:
  "map_of example_db ''A'' = Some acct_A \<and> map_of example_db ''B'' = Some acct_B \<and>
   fst (withdraw (Fin 50) 1 acct_A) \<and> fst (withdraw (Fin 50) 1 acct_B) \<and> ''A'' \<noteq> ''B'' \<and>
   fst (deposit (Fin 50) 2 acct_B) \<and>
   fst (execute (TransferCommand ''A'' ''B'' (Fin 50)) 1 2 example_db) \<and>
   map_of (snd (execute (TransferCommand ''A'' ''B'' (Fin 50)) 1 2 example_db)) =
     (map_of example_db)
       (''A'' \<mapsto> acct_A\<lparr>balance := Fin 50,
            transaction_history := [\<lparr>type = ''WITHDRAWAL'', amount = Fin 50, timestamp = 1\<rparr>]\<rparr>,
        ''B'' \<mapsto> acct_B\<lparr>balance := Fin 100,
            transaction_history := [\<lparr>type = ''DEPOSIT'', amount = Fin 50, timestamp = 2\<rparr>]\<rparr>) \<and>
   fst (undo (TransferCommand ''A'' ''B'' (Fin 50)) 1 2 example_db) \<and>
   map_of (snd (undo (TransferCommand ''A'' ''B'' (Fin 50)) 1 2 example_db)) =
     (map_of example_db)
       (''B'' \<mapsto> acct_B\<lparr>balance := Fin 0,
            transaction_history := [\<lparr>type = ''WITHDRAWAL'', amount = Fin 50, timestamp = 1\<rparr>]\<rparr>,
        ''A'' \<mapsto> acct_A\<lparr>balance := Fin 150,
            transaction_history := [\<lparr>type = ''DEPOSIT'', amount = Fin 50, timestamp = 2\<rparr>]\<rparr>) \<and>
   map_of (snd (execute (TransferCommand ''A'' ''A'' (Fin 50)) 1 2 example_db)) =
     (map_of example_db)
       (''A'' \<mapsto> acct_A\<lparr>balance := Fin 100,
            transaction_history := [\<lparr>type = ''WITHDRAWAL'', amount = Fin 50, timestamp = 1\<rparr>,
              \<lparr>type = ''DEPOSIT'', amount = Fin 50, timestamp = 2\<rparr>]\<rparr>) \<and>
   map_of (snd (undo (TransferCommand ''A'' ''A'' (Fin 50)) 1 2 example_db)) =
     (map_of example_db)
       (''A'' \<mapsto> acct_A\<lparr>balance := Fin 100,
            transaction_history := [\<lparr>type = ''WITHDRAWAL'', amount = Fin 50, timestamp = 1\<rparr>,
              \<lparr>type = ''DEPOSIT'', amount = Fin 50, timestamp = 2\<rparr>]\<rparr>) \<and>
   \<not> fst (withdraw (Fin 500) 1 acct_A) \<and> \<not> fst (withdraw (Fin 500) 1 acct_B) \<and>
   execute (TransferCommand ''A'' ''B'' (Fin 500)) 1 2 example_db = (False, example_db) \<and>
   undo (TransferCommand ''A'' ''B'' (Fin 500)) 1 2 example_db = (False, example_db)"
proof -
  have ok: "fst (withdraw (Fin 50) (1::nat) acct_A)" "fst (withdraw (Fin 50) (1::nat) acct_B)"
    by (simp_all add: withdraw_def example_balance)
  have ko: "\<not> fst (withdraw (Fin 500) (1::nat) acct_A)" "\<not> fst (withdraw (Fin 500) (1::nat) acct_B)"
    by (simp_all add: withdraw_def example_balance)
  have h: "transaction_history acct_A = []" "transaction_history acct_B = []"
    by (simp_all add: acct_A_def acct_B_def Account_def)
  show ?thesis
    using transfer_no_partial_state [OF example_lookup, of "Fin 50" 1 2]
      transfer_no_partial_state [OF example_lookup(1) example_lookup(1), of "Fin 50" 1 2]
      transfer_no_partial_state [OF example_lookup, of "Fin 500" 1 2] ok ko
    by (auto simp add: example_lookup example_balance h round64_50 round64_100 round64_150
        round64_0 simp del: execute.simps undo.simps)
qed

section \<open>Interest and the sign of the balance\<close>

lemma float_of_rates:
  "float_of (2 / 100) = Fin (5764607523034235 / 288230376151711744)"
  "float_of (1 / 1000) = Fin (1152921504606847 / 1152921504606846976)"
  "float_of (5 / 100) = Fin (3602879701896397 / 72057594037927936)"
  by code_simp+

lemma calculate_interest_rates:
  "calculate_interest SavingsInterest b = fmul b (Fin (5764607523034235 / 288230376151711744))"
  "calculate_interest CheckingInterest b = fmul b (Fin (1152921504606847 / 1152921504606846976))"
  "calculate_interest LoanInterest b = fmul b (Fin (3602879701896397 / 72057594037927936))"
  by (simp_all only: calculate_interest.simps float_of_rates)

lemma interest_evals:
  "calculate_interest SavingsInterest (Fin 100) = Fin 2"
  "calculate_interest SavingsInterest (Fin (- 100)) = Fin (- 2)"
  "fadd (Fin 100) (Fin 2) = Fin 102"
  by code_simp+

lemma strategies: "interest_strategy acct_A = SavingsInterest" "interest_strategy acct_N = SavingsInterest"
  by (simp_all add: acct_A_def acct_N_def Account_def strategy_for_def lower_def lower_char_def)

lemma acct_N_balance: "balance acct_N = Fin (- 100)"
  by (simp add: acct_N_def)

lemma example_interest:
  "calculate_interest (interest_strategy acct_A) (balance acct_A) = Fin 2"
  "calculate_interest (interest_strategy acct_N) (balance acct_N) = Fin (- 2)"
  by (simp_all only: strategies interest_evals example_balance acct_N_balance)

text \<open>
  C5, as the specification states it, fails: on a savings account with balance \<open>-100\<close>
  the accrual is \<open>-2\<close>, the internal deposit fails and nothing is recorded, but
  \<^verbatim>\<open>apply_interest\<close> returns \<open>-2\<close>, not \<open>0\<close>.
\<close>

theorem apply_interest_returns_zero_counterexample:
  "\<not> fst (deposit (calculate_interest (interest_strategy acct_N) (balance acct_N)) 7 acct_N) \<and>
   snd (apply_interest 7 acct_N) = acct_N \<and>
   fst (apply_interest 7 acct_N) = Fin (- 2) \<and>
   fst (apply_interest 7 acct_N) \<noteq> Fin 0"
  by (simp add: apply_interest_def deposit_def example_interest)

text \<open>
  C5, amended. \<^verbatim>\<open>apply_interest\<close> computes the accrual of the account's strategy on the
  current balance and always returns it. If the accrual is nonzero and the internal
  deposit accepts it, the balance is increased by it and one DEPOSIT of that amount is
  appended; if it is zero or the deposit rejects it (an accrual \<open>\<le> 0\<close>), the account is
  unchanged, and the value returned is still the accrual.
\<close>

theorem apply_interest_spec:
  "fst (apply_interest now self) = calculate_interest (interest_strategy self) (balance self) \<and>
   (fne (calculate_interest (interest_strategy self) (balance self)) (Fin 0) \<and>
    \<not> fle (calculate_interest (interest_strategy self) (balance self)) (Fin 0) \<longrightarrow>
      snd (apply_interest now self) =
        self\<lparr>balance := fadd (balance self)
                 (calculate_interest (interest_strategy self) (balance self)),
             transaction_history := transaction_history self @
               [\<lparr>type = ''DEPOSIT'',
                 amount = calculate_interest (interest_strategy self) (balance self),
                 timestamp = now\<rparr>]\<rparr>) \<and>
   (\<not> fne (calculate_interest (interest_strategy self) (balance self)) (Fin 0) \<or>
    fle (calculate_interest (interest_strategy self) (balance self)) (Fin 0) \<longrightarrow>
      snd (apply_interest now self) = self)"
  by (simp add: apply_interest_def deposit_def Let_def)

theorem apply_interest_spec_witness:
  "fst (apply_interest 7 acct_A) = Fin 2 \<and>
   balance (snd (apply_interest 7 acct_A)) = Fin 102 \<and>
   transaction_history (snd (apply_interest 7 acct_A)) =
     [\<lparr>type = ''DEPOSIT'', amount = Fin 2, timestamp = 7\<rparr>] \<and>
   fle (calculate_interest (interest_strategy acct_N) (balance acct_N)) (Fin 0) \<and>
   fst (apply_interest 7 acct_N) = Fin (- 2) \<and>
   snd (apply_interest 7 acct_N) = acct_N"
proof -
  have h: "transaction_history acct_A = []"
    by (simp add: acct_A_def Account_def)
  show ?thesis
    using apply_interest_spec [of 7 acct_A] apply_interest_spec [of 7 acct_N]
    by (simp add: strategies example_balance acct_N_balance h interest_evals
        del: fadd.simps calculate_interest.simps)
qed

text \<open>
  C7. The guards of \<^verbatim>\<open>deposit\<close> and \<^verbatim>\<open>withdraw\<close> let NaN through (\<^verbatim>\<open>nan <= 0\<close> and
  \<^verbatim>\<open>nan > balance\<close> are both false), and \<^verbatim>\<open>float(input())\<close> accepts the text \<^verbatim>\<open>nan\<close>: on an
  account with balance \<open>100\<close> either operation succeeds and leaves the balance NaN, which
  is not \<open>\<ge> 0\<close>.
\<close>

theorem deposit_nan_breaks_nonneg:
  "fle (Fin 0) (balance acct_A) \<and>
   fst (deposit NaN 7 acct_A) \<and>
   balance (snd (deposit NaN 7 acct_A)) = NaN \<and>
   \<not> fle (Fin 0) (balance (snd (deposit NaN 7 acct_A))) \<and>
   fst (withdraw NaN 7 acct_A) \<and>
   \<not> fle (Fin 0) (balance (snd (withdraw NaN 7 acct_A)))"
  by (simp add: deposit_def withdraw_def acct_A_def)

text \<open>For amounts other than NaN the operations keep a non-negative balance non-negative.\<close>

lemma pow2_pos: "0 < pow2 k"
  by (simp add: pow2_def)

lemma round_half_even_nonneg: "0 \<le> y \<Longrightarrow> 0 \<le> round_half_even y"
  by (simp add: round_half_even_def Let_def)

lemma round64_nonneg: "0 \<le> x \<Longrightarrow> fle (Fin 0) (round64 x)"
proof -
  assume x: "0 \<le> x"
  have "0 \<le> of_int (round_half_even (\<bar>x\<bar> / pow2 q)) * pow2 q" for q
    using pow2_pos [of q] round_half_even_nonneg [of "\<bar>x\<bar> / pow2 q"]
    by (simp add: less_imp_le)
  then show ?thesis
    using x by (simp add: round64_def Let_def)
qed

lemma deposit_keeps_nonneg:
  assumes "fle (Fin 0) (balance self)" and "amt \<noteq> NaN"
  shows "fle (Fin 0) (balance (snd (deposit amt now self)))"
proof (cases "fle amt (Fin 0)")
  case True
  then show ?thesis using assms by (simp add: deposit_def)
next
  case False
  then show ?thesis
    using assms
    by (cases amt; cases "balance self") (simp_all add: deposit_def round64_nonneg)
qed

lemma withdraw_keeps_nonneg:
  assumes "fle (Fin 0) (balance self)" and "amt \<noteq> NaN"
    and "\<not> (amt = PInf \<and> balance self = PInf)"
  shows "fle (Fin 0) (balance (snd (withdraw amt now self)))"
proof (cases "fle amt (Fin 0) \<or> fgt amt (balance self)")
  case True
  then show ?thesis using assms by (simp add: withdraw_def)
next
  case False
  then show ?thesis
    using assms
    by (cases amt; cases "balance self") (simp_all add: withdraw_def round64_nonneg)
qed

lemma fmul_rate_nonneg:
  assumes "fle (Fin 0) b" and "0 < c"
  shows "fle (Fin 0) (fmul b (Fin c))"
proof (cases b)
  case (Fin x)
  then have "0 \<le> x * c" using assms by simp
  then show ?thesis using Fin by (simp add: round64_nonneg)
qed (use assms in simp_all)

lemma interest_nonneg:
  assumes "fle (Fin 0) b"
  shows "fle (Fin 0) (calculate_interest s b)"
  by (cases s) (simp_all add: calculate_interest_rates fmul_rate_nonneg [OF assms]
      del: calculate_interest.simps)

lemma apply_interest_keeps_nonneg:
  assumes "fle (Fin 0) (balance self)"
  shows "fle (Fin 0) (balance (snd (apply_interest now self)))"
proof -
  have "calculate_interest (interest_strategy self) (balance self) \<noteq> NaN"
    using interest_nonneg [OF assms, of "interest_strategy self"] by auto
  then show ?thesis
    using assms by (simp add: apply_interest_def Let_def deposit_keeps_nonneg)
qed

section \<open>Executing and undoing a command\<close>

lemma db_C_lookup: "map_of db_C ''C'' = Some acct_C" "map_of db_C ''N'' = Some acct_N"
  by (simp_all add: db_C_def)

lemma acct_C_balance: "balance acct_C = Fin (3602879701896397 / 36028797018963968)"
  by (simp add: acct_C_def tenth_evals)

lemma example_histories: "transaction_history acct_A = []" "transaction_history acct_B = []"
  "transaction_history acct_N = []"
  by (simp_all add: acct_A_def acct_B_def acct_N_def Account_def)

text \<open>
  C1, as the specification states it, fails. The balances are floats, and undoing a command
  applies the opposite operation. On an account holding \<open>0.1\<close> the deposit of \<open>0.2\<close> and its
  undo both succeed and leave \<open>0.10000000000000003\<close>, since \<open>0.1 + 0.2\<close> is rounded. On an
  account holding \<open>-100\<close> the deposit of \<open>50\<close> succeeds and its undo, a withdrawal of \<open>50\<close>
  from \<open>-50\<close>, fails, leaving \<open>-50\<close>.
\<close>

theorem undo_deposit_not_restored_counterexample:
  "fst (execute (DepositCommand ''C'' (float_of (1 / 5))) 1 2 db_C) \<and>
   fst (execute_then_undo (DepositCommand ''C'' (float_of (1 / 5))) 1 2 3 4 db_C) \<and>
   map_option balance (map_of db_C ''C'') = Some (float_of (1 / 10)) \<and>
   map_option balance
     (map_of (snd (execute_then_undo (DepositCommand ''C'' (float_of (1 / 5))) 1 2 3 4 db_C)) ''C'') =
     Some (Fin (1801439850948199 / 18014398509481984)) \<and>
   Fin (1801439850948199 / 18014398509481984) \<noteq> float_of (1 / 10) \<and>
   fst (execute (DepositCommand ''N'' (Fin 50)) 1 2 db_C) \<and>
   \<not> fst (execute_then_undo (DepositCommand ''N'' (Fin 50)) 1 2 3 4 db_C) \<and>
   map_option balance (map_of db_C ''N'') = Some (Fin (- 100)) \<and>
   map_option balance
     (map_of (snd (execute_then_undo (DepositCommand ''N'' (Fin 50)) 1 2 3 4 db_C)) ''N'') =
     Some (Fin (- 50))"
  by (simp add: execute_then_undo_def on_account_def db_C_lookup update_conv' deposit_def
      withdraw_def tenth_evals acct_C_balance acct_N_balance del: fadd.simps fsub.simps)

lemma history_kept_iff:
  "history_kept db db' \<longleftrightarrow>
     map fst db' = map fst db \<and>
     (\<forall>k a. map_of db k = Some a \<longrightarrow>
        (\<exists>a'. map_of db' k = Some a' \<and> prefix (transaction_history a) (transaction_history a')))"
proof -
  have "list_all
       (\<lambda>k. case map_of db k of
              None \<Rightarrow> True
            | Some a \<Rightarrow>
                (case map_of db' k of
                   None \<Rightarrow> False
                 | Some a' \<Rightarrow> prefix (transaction_history a) (transaction_history a')))
       (map fst db) \<longleftrightarrow>
     (\<forall>k a. map_of db k = Some a \<longrightarrow>
        (\<exists>a'. map_of db' k = Some a' \<and> prefix (transaction_history a) (transaction_history a')))"
    (is "?L \<longleftrightarrow> ?R")
  proof
    assume L: ?L
    show ?R
    proof (intro allI impI)
      fix k a
      assume ka: "map_of db k = Some a"
      then have "k \<in> set (map fst db)"
        by (metis domI dom_map_of_conv_image_fst set_map)
      with L have "case map_of db k of
              None \<Rightarrow> True
            | Some a \<Rightarrow>
                (case map_of db' k of
                   None \<Rightarrow> False
                 | Some a' \<Rightarrow> prefix (transaction_history a) (transaction_history a'))"
        unfolding list_all_iff by (rule bspec)
      with ka show "\<exists>a'. map_of db' k = Some a' \<and>
          prefix (transaction_history a) (transaction_history a')"
        by (simp split: option.splits)
    qed
  next
    assume R: ?R
    show ?L
      unfolding list_all_iff
    proof
      fix k
      assume "k \<in> set (map fst db)"
      show "case map_of db k of
              None \<Rightarrow> True
            | Some a \<Rightarrow>
                (case map_of db' k of
                   None \<Rightarrow> False
                 | Some a' \<Rightarrow> prefix (transaction_history a) (transaction_history a'))"
      proof (cases "map_of db k")
        case None
        then show ?thesis by simp
      next
        case (Some a)
        with R obtain a' where
          "map_of db' k = Some a'" "prefix (transaction_history a) (transaction_history a')"
          by blast
        with Some show ?thesis by simp
      qed
    qed
  qed
  then show ?thesis
    by (simp add: history_kept_def)
qed

lemma history_kept_refl: "history_kept db db"
  by (simp add: history_kept_iff)

lemma history_kept_trans:
  assumes "history_kept db db'" and "history_kept db' db''"
  shows "history_kept db db''"
proof -
  have "\<exists>a''. map_of db'' k = Some a'' \<and> prefix (transaction_history a) (transaction_history a'')"
    if "map_of db k = Some a" for k a
  proof -
    from assms(1) that obtain a' where
      a': "map_of db' k = Some a'" "prefix (transaction_history a) (transaction_history a')"
      unfolding history_kept_iff by blast
    from assms(2) a'(1) obtain a'' where
      a'': "map_of db'' k = Some a''" "prefix (transaction_history a') (transaction_history a'')"
      unfolding history_kept_iff by blast
    from a'(2) a''(2) have "prefix (transaction_history a) (transaction_history a'')"
      by (rule prefix_order.trans)
    with a''(1) show ?thesis by blast
  qed
  moreover have "map fst db'' = map fst db"
    using assms unfolding history_kept_iff by simp
  ultimately show ?thesis
    unfolding history_kept_iff by blast
qed

lemma on_account_history_kept:
  assumes "\<And>a. prefix (transaction_history a) (transaction_history (snd (f a)))"
  shows "history_kept db (snd (on_account r f db))"
proof (cases "map_of db r")
  case None
  then show ?thesis
    by (simp add: on_account_def history_kept_refl)
next
  case (Some a)
  then have "r \<in> fst ` set db"
    by (metis domI dom_map_of_conv_image_fst)
  then have keys: "map fst (AList.update r (snd (f a)) db) = map fst db"
    by (simp add: update_keys)
  show ?thesis
    using Some assms [of a] keys
    by (auto simp add: on_account_Some history_kept_iff update_conv')
qed

lemma deposit_history: "prefix (transaction_history a) (transaction_history (snd (deposit x t a)))"
  by (simp add: deposit_def)

lemma withdraw_history: "prefix (transaction_history a) (transaction_history (snd (withdraw x t a)))"
  by (simp add: withdraw_def)

lemma execute_history_kept: "history_kept db (snd (execute c t1 t2 db))"
proof (cases c)
  case (TransferCommand p q x)
  have "history_kept db (snd (on_account p (withdraw x t1) db))"
    by (rule on_account_history_kept) (rule withdraw_history)
  moreover have "history_kept (snd (on_account p (withdraw x t1) db))
      (snd (on_account q (deposit x t2) (snd (on_account p (withdraw x t1) db))))"
    by (rule on_account_history_kept) (rule deposit_history)
  ultimately show ?thesis
    using TransferCommand by (auto intro: history_kept_trans)
qed (simp_all add: on_account_history_kept deposit_history withdraw_history)

lemma undo_history_kept: "history_kept db (snd (undo c t1 t2 db))"
proof (cases c)
  case (TransferCommand p q x)
  have "history_kept db (snd (on_account q (withdraw x t1) db))"
    by (rule on_account_history_kept) (rule withdraw_history)
  moreover have "history_kept (snd (on_account q (withdraw x t1) db))
      (snd (on_account p (deposit x t2) (snd (on_account q (withdraw x t1) db))))"
    by (rule on_account_history_kept) (rule deposit_history)
  ultimately show ?thesis
    using TransferCommand by (auto intro: history_kept_trans)
qed (simp_all add: on_account_history_kept deposit_history withdraw_history)

lemma add_then_sub:
  assumes "is_double a" and "exact_add a x"
  shows "fsub (fadd a x) x = a"
  using assms by (cases a; cases x) simp_all

lemma sub_then_add:
  assumes "is_double a" and "exact_sub a x"
  shows "fadd (fsub a x) x = a"
  using assms by (cases a; cases x) simp_all

lemma withdraw_back_ok:
  assumes "fle (Fin 0) a" and "exact_add a x"
  shows "\<not> fgt x (fadd a x)"
  using assms by (cases a; cases x) simp_all

lemma deposit_undone:
  assumes a: "map_of db r = Some a" and d: "is_double (balance a)"
    and n: "fle (Fin 0) (balance a)" and e: "exact_add (balance a) x"
    and ok: "fst (deposit x t1 a)"
  shows "fst (execute_then_undo (DepositCommand r x) t1 t2 t3 t4 db)"
    and "map_of (snd (execute_then_undo (DepositCommand r x) t1 t2 t3 t4 db)) =
      (map_of db)
        (r \<mapsto> a\<lparr>transaction_history := transaction_history a @
             [\<lparr>type = ''DEPOSIT'', amount = x, timestamp = t1\<rparr>,
              \<lparr>type = ''WITHDRAWAL'', amount = x, timestamp = t3\<rparr>]\<rparr>)"
proof -
  let ?a1 = "a\<lparr>balance := fadd (balance a) x,
                 transaction_history := transaction_history a @
                   [\<lparr>type = ''DEPOSIT'', amount = x, timestamp = t1\<rparr>]\<rparr>"
  have x: "\<not> fle x (Fin 0)"
    using ok by (simp add: deposit_def split: if_splits)
  have e1: "execute (DepositCommand r x) t1 t2 db = (True, AList.update r ?a1 db)"
    using ok by (simp add: on_account_Some [OF a] deposit_ok_snd)
  have l1: "map_of (AList.update r ?a1 db) r = Some ?a1"
    by (simp add: update_conv')
  have w: "withdraw x t3 ?a1 =
      (True, a\<lparr>transaction_history := transaction_history a @
             [\<lparr>type = ''DEPOSIT'', amount = x, timestamp = t1\<rparr>,
              \<lparr>type = ''WITHDRAWAL'', amount = x, timestamp = t3\<rparr>]\<rparr>)"
    using x withdraw_back_ok [OF n e] add_then_sub [OF d e] by (simp add: withdraw_def)
  have u: "execute_then_undo (DepositCommand r x) t1 t2 t3 t4 db =
      (True, AList.update r (a\<lparr>transaction_history := transaction_history a @
             [\<lparr>type = ''DEPOSIT'', amount = x, timestamp = t1\<rparr>,
              \<lparr>type = ''WITHDRAWAL'', amount = x, timestamp = t3\<rparr>]\<rparr>) (AList.update r ?a1 db))"
    unfolding execute_then_undo_def e1 by (simp add: on_account_Some [OF l1] w)
  show "fst (execute_then_undo (DepositCommand r x) t1 t2 t3 t4 db)"
    by (simp add: u)
  show "map_of (snd (execute_then_undo (DepositCommand r x) t1 t2 t3 t4 db)) =
      (map_of db)
        (r \<mapsto> a\<lparr>transaction_history := transaction_history a @
             [\<lparr>type = ''DEPOSIT'', amount = x, timestamp = t1\<rparr>,
              \<lparr>type = ''WITHDRAWAL'', amount = x, timestamp = t3\<rparr>]\<rparr>)"
    by (simp add: u update_conv')
qed

lemma withdraw_undone:
  assumes a: "map_of db r = Some a" and d: "is_double (balance a)"
    and e: "exact_sub (balance a) x"
    and ok: "fst (withdraw x t1 a)"
  shows "fst (execute_then_undo (WithdrawCommand r x) t1 t2 t3 t4 db)"
    and "map_of (snd (execute_then_undo (WithdrawCommand r x) t1 t2 t3 t4 db)) =
      (map_of db)
        (r \<mapsto> a\<lparr>transaction_history := transaction_history a @
             [\<lparr>type = ''WITHDRAWAL'', amount = x, timestamp = t1\<rparr>,
              \<lparr>type = ''DEPOSIT'', amount = x, timestamp = t3\<rparr>]\<rparr>)"
proof -
  let ?a1 = "a\<lparr>balance := fsub (balance a) x,
                 transaction_history := transaction_history a @
                   [\<lparr>type = ''WITHDRAWAL'', amount = x, timestamp = t1\<rparr>]\<rparr>"
  have x: "\<not> fle x (Fin 0)"
    using ok by (simp add: withdraw_def split: if_splits)
  have e1: "execute (WithdrawCommand r x) t1 t2 db = (True, AList.update r ?a1 db)"
    using ok by (simp add: on_account_Some [OF a] withdraw_ok_snd)
  have l1: "map_of (AList.update r ?a1 db) r = Some ?a1"
    by (simp add: update_conv')
  have w: "deposit x t3 ?a1 =
      (True, a\<lparr>transaction_history := transaction_history a @
             [\<lparr>type = ''WITHDRAWAL'', amount = x, timestamp = t1\<rparr>,
              \<lparr>type = ''DEPOSIT'', amount = x, timestamp = t3\<rparr>]\<rparr>)"
    using x sub_then_add [OF d e] by (simp add: deposit_def)
  have u: "execute_then_undo (WithdrawCommand r x) t1 t2 t3 t4 db =
      (True, AList.update r (a\<lparr>transaction_history := transaction_history a @
             [\<lparr>type = ''WITHDRAWAL'', amount = x, timestamp = t1\<rparr>,
              \<lparr>type = ''DEPOSIT'', amount = x, timestamp = t3\<rparr>]\<rparr>) (AList.update r ?a1 db))"
    unfolding execute_then_undo_def e1 by (simp add: on_account_Some [OF l1] w)
  show "fst (execute_then_undo (WithdrawCommand r x) t1 t2 t3 t4 db)"
    by (simp add: u)
  show "map_of (snd (execute_then_undo (WithdrawCommand r x) t1 t2 t3 t4 db)) =
      (map_of db)
        (r \<mapsto> a\<lparr>transaction_history := transaction_history a @
             [\<lparr>type = ''WITHDRAWAL'', amount = x, timestamp = t1\<rparr>,
              \<lparr>type = ''DEPOSIT'', amount = x, timestamp = t3\<rparr>]\<rparr>)"
    by (simp add: u update_conv')
qed

lemma withdraw_fst_balance:
  "balance a = balance b \<Longrightarrow> fst (withdraw x t a) = fst (withdraw x t' b)"
  by (simp add: withdraw_def)

lemma transfer_undone:
  assumes A: "map_of db p = Some A" and B: "map_of db q = Some B" and pq: "p \<noteq> q"
    and dA: "is_double (balance A)" and dB: "is_double (balance B)"
    and n: "fle (Fin 0) (balance B)"
    and eA: "exact_sub (balance A) x" and eB: "exact_add (balance B) x"
    and ok: "fst (withdraw x t1 A)"
  shows "fst (execute_then_undo (TransferCommand p q x) t1 t2 t3 t4 db)"
    and "map_of (snd (execute_then_undo (TransferCommand p q x) t1 t2 t3 t4 db)) =
      (map_of db)
        (p \<mapsto> A\<lparr>transaction_history := transaction_history A @
             [\<lparr>type = ''WITHDRAWAL'', amount = x, timestamp = t1\<rparr>,
              \<lparr>type = ''DEPOSIT'', amount = x, timestamp = t4\<rparr>]\<rparr>,
         q \<mapsto> B\<lparr>transaction_history := transaction_history B @
             [\<lparr>type = ''DEPOSIT'', amount = x, timestamp = t2\<rparr>,
              \<lparr>type = ''WITHDRAWAL'', amount = x, timestamp = t3\<rparr>]\<rparr>)"
proof -
  let ?A1 = "A\<lparr>balance := fsub (balance A) x,
                 transaction_history := transaction_history A @
                   [\<lparr>type = ''WITHDRAWAL'', amount = x, timestamp = t1\<rparr>]\<rparr>"
  let ?B1 = "B\<lparr>balance := fadd (balance B) x,
                 transaction_history := transaction_history B @
                   [\<lparr>type = ''DEPOSIT'', amount = x, timestamp = t2\<rparr>]\<rparr>"
  let ?db1 = "snd (on_account q (deposit x t2) (snd (on_account p (withdraw x t1) db)))"
  have x: "\<not> fle x (Fin 0)"
    using ok by (simp add: withdraw_def split: if_splits)
  have e: "snd (execute (TransferCommand p q x) t1 t2 db) = ?db1"
    using both_legs(1) [OF A B ok] by simp
  have m1: "map_of ?db1 = (map_of db)(p \<mapsto> ?A1, q \<mapsto> ?B1)"
    using both_legs(3) [OF A B ok pq] .
  have A1: "map_of ?db1 p = Some ?A1" and B1: "map_of ?db1 q = Some ?B1"
    using pq by (simp_all add: m1)
  have ok1: "fst (withdraw x t3 ?B1)"
    using x withdraw_back_ok [OF n eB] by (simp add: withdraw_def)
  have u: "execute_then_undo (TransferCommand p q x) t1 t2 t3 t4 db =
      on_account p (deposit x t4) (snd (on_account q (withdraw x t3) ?db1))"
    unfolding execute_then_undo_def e using both_legs(1) [OF B1 A1 ok1] by simp
  show "fst (execute_then_undo (TransferCommand p q x) t1 t2 t3 t4 db)"
    unfolding u using both_legs(2) [OF B1 A1 ok1] .
  have "map_of (snd (execute_then_undo (TransferCommand p q x) t1 t2 t3 t4 db)) =
      (map_of ?db1)
        (q \<mapsto> ?B1\<lparr>balance := fsub (balance ?B1) x,
               transaction_history := transaction_history ?B1 @
                 [\<lparr>type = ''WITHDRAWAL'', amount = x, timestamp = t3\<rparr>]\<rparr>,
         p \<mapsto> ?A1\<lparr>balance := fadd (balance ?A1) x,
               transaction_history := transaction_history ?A1 @
                 [\<lparr>type = ''DEPOSIT'', amount = x, timestamp = t4\<rparr>]\<rparr>)"
    unfolding u using pq by (intro both_legs(3) [OF B1 A1 ok1]) simp
  then show "map_of (snd (execute_then_undo (TransferCommand p q x) t1 t2 t3 t4 db)) =
      (map_of db)
        (p \<mapsto> A\<lparr>transaction_history := transaction_history A @
             [\<lparr>type = ''WITHDRAWAL'', amount = x, timestamp = t1\<rparr>,
              \<lparr>type = ''DEPOSIT'', amount = x, timestamp = t4\<rparr>]\<rparr>,
         q \<mapsto> B\<lparr>transaction_history := transaction_history B @
             [\<lparr>type = ''DEPOSIT'', amount = x, timestamp = t2\<rparr>,
              \<lparr>type = ''WITHDRAWAL'', amount = x, timestamp = t3\<rparr>]\<rparr>)"
    using pq add_then_sub [OF dB eB] sub_then_add [OF dA eA]
    by (auto simp add: m1 fun_eq_iff)
qed

lemma self_transfer_undone:
  assumes A: "map_of db p = Some A"
    and dA: "is_double (balance A)" and eA: "exact_sub (balance A) x"
    and ok: "fst (withdraw x t1 A)"
  shows "fst (execute_then_undo (TransferCommand p p x) t1 t2 t3 t4 db)"
    and "map_of (snd (execute_then_undo (TransferCommand p p x) t1 t2 t3 t4 db)) =
      (map_of db)
        (p \<mapsto> A\<lparr>transaction_history := transaction_history A @
             [\<lparr>type = ''WITHDRAWAL'', amount = x, timestamp = t1\<rparr>,
              \<lparr>type = ''DEPOSIT'', amount = x, timestamp = t2\<rparr>,
              \<lparr>type = ''WITHDRAWAL'', amount = x, timestamp = t3\<rparr>,
              \<lparr>type = ''DEPOSIT'', amount = x, timestamp = t4\<rparr>]\<rparr>)"
proof -
  let ?A1 = "A\<lparr>transaction_history := transaction_history A @
                   [\<lparr>type = ''WITHDRAWAL'', amount = x, timestamp = t1\<rparr>,
                    \<lparr>type = ''DEPOSIT'', amount = x, timestamp = t2\<rparr>]\<rparr>"
  let ?db1 = "snd (on_account p (deposit x t2) (snd (on_account p (withdraw x t1) db)))"
  have e: "snd (execute (TransferCommand p p x) t1 t2 db) = ?db1"
    using both_legs(1) [OF A A ok] by simp
  have m1: "map_of ?db1 = (map_of db)(p \<mapsto> ?A1)"
    using both_legs(4) [OF A A ok refl, of t2] sub_then_add [OF dA eA] by simp
  have A1: "map_of ?db1 p = Some ?A1"
    by (simp add: m1)
  have ok1: "fst (withdraw x t3 ?A1)"
    using ok withdraw_fst_balance [of ?A1 A x t3 t1] by simp
  have u: "execute_then_undo (TransferCommand p p x) t1 t2 t3 t4 db =
      on_account p (deposit x t4) (snd (on_account p (withdraw x t3) ?db1))"
    unfolding execute_then_undo_def e using both_legs(1) [OF A1 A1 ok1] by simp
  show "fst (execute_then_undo (TransferCommand p p x) t1 t2 t3 t4 db)"
    unfolding u using both_legs(2) [OF A1 A1 ok1] .
  show "map_of (snd (execute_then_undo (TransferCommand p p x) t1 t2 t3 t4 db)) =
      (map_of db)
        (p \<mapsto> A\<lparr>transaction_history := transaction_history A @
             [\<lparr>type = ''WITHDRAWAL'', amount = x, timestamp = t1\<rparr>,
              \<lparr>type = ''DEPOSIT'', amount = x, timestamp = t2\<rparr>,
              \<lparr>type = ''WITHDRAWAL'', amount = x, timestamp = t3\<rparr>,
              \<lparr>type = ''DEPOSIT'', amount = x, timestamp = t4\<rparr>]\<rparr>)"
    unfolding u using both_legs(4) [OF A1 A1 ok1 refl, of t4] sub_then_add [OF dA eA]
    by (simp add: m1)
qed

text \<open>
  C1, amended. Executing a command and undoing it at once never removes a history record:
  after each of the two steps every account is still there with records appended to its
  history. If moreover \<^verbatim>\<open>execute\<close> returned success, the balances involved are floats, the
  additions and subtractions made by \<^verbatim>\<open>execute\<close> are exact (nothing is rounded), and the
  account that \<^verbatim>\<open>undo\<close> withdraws from (the account of a deposit, the destination of a
  transfer) had a balance \<open>\<ge> 0\<close>, then \<^verbatim>\<open>undo\<close> returns success and every account is what
  it was before \<^verbatim>\<open>execute\<close>, balance included, but for its history, to which the records
  of \<^verbatim>\<open>execute\<close> and of \<^verbatim>\<open>undo\<close> have been appended: two for a deposit or a withdrawal,
  two on each account for a transfer, four for a transfer from an account to itself.
\<close>

theorem execute_undo_restores:
  "history_kept db (snd (execute c t1 t2 db)) \<and>
   history_kept (snd (execute c t1 t2 db)) (snd (execute_then_undo c t1 t2 t3 t4 db)) \<and>
   (map_of db r = Some a \<and> is_double (balance a) \<and> fle (Fin 0) (balance a) \<and>
    exact_add (balance a) x \<and> fst (execute (DepositCommand r x) t1 t2 db) \<longrightarrow>
      fst (execute_then_undo (DepositCommand r x) t1 t2 t3 t4 db) \<and>
      map_of (snd (execute_then_undo (DepositCommand r x) t1 t2 t3 t4 db)) =
        (map_of db)
          (r \<mapsto> a\<lparr>transaction_history := transaction_history a @
               [\<lparr>type = ''DEPOSIT'', amount = x, timestamp = t1\<rparr>,
                \<lparr>type = ''WITHDRAWAL'', amount = x, timestamp = t3\<rparr>]\<rparr>)) \<and>
   (map_of db r = Some a \<and> is_double (balance a) \<and>
    exact_sub (balance a) x \<and> fst (execute (WithdrawCommand r x) t1 t2 db) \<longrightarrow>
      fst (execute_then_undo (WithdrawCommand r x) t1 t2 t3 t4 db) \<and>
      map_of (snd (execute_then_undo (WithdrawCommand r x) t1 t2 t3 t4 db)) =
        (map_of db)
          (r \<mapsto> a\<lparr>transaction_history := transaction_history a @
               [\<lparr>type = ''WITHDRAWAL'', amount = x, timestamp = t1\<rparr>,
                \<lparr>type = ''DEPOSIT'', amount = x, timestamp = t3\<rparr>]\<rparr>)) \<and>
   (map_of db p = Some A \<and> map_of db q = Some B \<and> p \<noteq> q \<and>
    is_double (balance A) \<and> is_double (balance B) \<and> fle (Fin 0) (balance B) \<and>
    exact_sub (balance A) x \<and> exact_add (balance B) x \<and>
    fst (execute (TransferCommand p q x) t1 t2 db) \<longrightarrow>
      fst (execute_then_undo (TransferCommand p q x) t1 t2 t3 t4 db) \<and>
      map_of (snd (execute_then_undo (TransferCommand p q x) t1 t2 t3 t4 db)) =
        (map_of db)
          (p \<mapsto> A\<lparr>transaction_history := transaction_history A @
               [\<lparr>type = ''WITHDRAWAL'', amount = x, timestamp = t1\<rparr>,
                \<lparr>type = ''DEPOSIT'', amount = x, timestamp = t4\<rparr>]\<rparr>,
           q \<mapsto> B\<lparr>transaction_history := transaction_history B @
               [\<lparr>type = ''DEPOSIT'', amount = x, timestamp = t2\<rparr>,
                \<lparr>type = ''WITHDRAWAL'', amount = x, timestamp = t3\<rparr>]\<rparr>)) \<and>
   (map_of db p = Some A \<and> is_double (balance A) \<and> exact_sub (balance A) x \<and>
    fst (execute (TransferCommand p p x) t1 t2 db) \<longrightarrow>
      fst (execute_then_undo (TransferCommand p p x) t1 t2 t3 t4 db) \<and>
      map_of (snd (execute_then_undo (TransferCommand p p x) t1 t2 t3 t4 db)) =
        (map_of db)
          (p \<mapsto> A\<lparr>transaction_history := transaction_history A @
               [\<lparr>type = ''WITHDRAWAL'', amount = x, timestamp = t1\<rparr>,
                \<lparr>type = ''DEPOSIT'', amount = x, timestamp = t2\<rparr>,
                \<lparr>type = ''WITHDRAWAL'', amount = x, timestamp = t3\<rparr>,
                \<lparr>type = ''DEPOSIT'', amount = x, timestamp = t4\<rparr>]\<rparr>))"
proof (intro conjI impI; (elim conjE)?)
  show "history_kept db (snd (execute c t1 t2 db))"
    by (rule execute_history_kept)
  show "history_kept (snd (execute c t1 t2 db)) (snd (execute_then_undo c t1 t2 t3 t4 db))"
    unfolding execute_then_undo_def by (rule undo_history_kept)
next
  assume h: "map_of db r = Some a" "is_double (balance a)" "fle (Fin 0) (balance a)"
    "exact_add (balance a) x" "fst (execute (DepositCommand r x) t1 t2 db)"
  then have ok: "fst (deposit x t1 a)"
    by (simp add: on_account_Some)
  show "fst (execute_then_undo (DepositCommand r x) t1 t2 t3 t4 db)"
    by (rule deposit_undone(1) [OF h(1-4) ok])
  show "map_of (snd (execute_then_undo (DepositCommand r x) t1 t2 t3 t4 db)) =
        (map_of db)
          (r \<mapsto> a\<lparr>transaction_history := transaction_history a @
               [\<lparr>type = ''DEPOSIT'', amount = x, timestamp = t1\<rparr>,
                \<lparr>type = ''WITHDRAWAL'', amount = x, timestamp = t3\<rparr>]\<rparr>)"
    by (rule deposit_undone(2) [OF h(1-4) ok])
next
  assume h: "map_of db r = Some a" "is_double (balance a)"
    "exact_sub (balance a) x" "fst (execute (WithdrawCommand r x) t1 t2 db)"
  then have ok: "fst (withdraw x t1 a)"
    by (simp add: on_account_Some)
  show "fst (execute_then_undo (WithdrawCommand r x) t1 t2 t3 t4 db)"
    by (rule withdraw_undone(1) [OF h(1-3) ok])
  show "map_of (snd (execute_then_undo (WithdrawCommand r x) t1 t2 t3 t4 db)) =
        (map_of db)
          (r \<mapsto> a\<lparr>transaction_history := transaction_history a @
               [\<lparr>type = ''WITHDRAWAL'', amount = x, timestamp = t1\<rparr>,
                \<lparr>type = ''DEPOSIT'', amount = x, timestamp = t3\<rparr>]\<rparr>)"
    by (rule withdraw_undone(2) [OF h(1-3) ok])
next
  assume h: "map_of db p = Some A" "map_of db q = Some B" "p \<noteq> q"
    "is_double (balance A)" "is_double (balance B)" "fle (Fin 0) (balance B)"
    "exact_sub (balance A) x" "exact_add (balance B) x"
    "fst (execute (TransferCommand p q x) t1 t2 db)"
  then have ok: "fst (withdraw x t1 A)"
    by (simp add: on_account_Some split: if_splits)
  show "fst (execute_then_undo (TransferCommand p q x) t1 t2 t3 t4 db)"
    by (rule transfer_undone(1) [OF h(1-8) ok])
  show "map_of (snd (execute_then_undo (TransferCommand p q x) t1 t2 t3 t4 db)) =
        (map_of db)
          (p \<mapsto> A\<lparr>transaction_history := transaction_history A @
               [\<lparr>type = ''WITHDRAWAL'', amount = x, timestamp = t1\<rparr>,
                \<lparr>type = ''DEPOSIT'', amount = x, timestamp = t4\<rparr>]\<rparr>,
           q \<mapsto> B\<lparr>transaction_history := transaction_history B @
               [\<lparr>type = ''DEPOSIT'', amount = x, timestamp = t2\<rparr>,
                \<lparr>type = ''WITHDRAWAL'', amount = x, timestamp = t3\<rparr>]\<rparr>)"
    by (rule transfer_undone(2) [OF h(1-8) ok])
next
  assume h: "map_of db p = Some A" "is_double (balance A)" "exact_sub (balance A) x"
    "fst (execute (TransferCommand p p x) t1 t2 db)"
  then have ok: "fst (withdraw x t1 A)"
    by (simp add: on_account_Some split: if_splits)
  show "fst (execute_then_undo (TransferCommand p p x) t1 t2 t3 t4 db)"
    by (rule self_transfer_undone(1) [OF h(1-3) ok])
  show "map_of (snd (execute_then_undo (TransferCommand p p x) t1 t2 t3 t4 db)) =
        (map_of db)
          (p \<mapsto> A\<lparr>transaction_history := transaction_history A @
               [\<lparr>type = ''WITHDRAWAL'', amount = x, timestamp = t1\<rparr>,
                \<lparr>type = ''DEPOSIT'', amount = x, timestamp = t2\<rparr>,
                \<lparr>type = ''WITHDRAWAL'', amount = x, timestamp = t3\<rparr>,
                \<lparr>type = ''DEPOSIT'', amount = x, timestamp = t4\<rparr>]\<rparr>)"
    by (rule self_transfer_undone(2) [OF h(1-3) ok])
qed

theorem execute_undo_restores_witness:
  "map_of example_db ''A'' = Some acct_A \<and> map_of example_db ''B'' = Some acct_B \<and>
   ''A'' \<noteq> ''B'' \<and>
   is_double (balance acct_A) \<and> is_double (balance acct_B) \<and>
   fle (Fin 0) (balance acct_A) \<and> fle (Fin 0) (balance acct_B) \<and>
   exact_add (balance acct_A) (Fin 50) \<and> exact_sub (balance acct_A) (Fin 50) \<and>
   exact_add (balance acct_B) (Fin 50) \<and>
   fst (execute (DepositCommand ''A'' (Fin 50)) 1 2 example_db) \<and>
   fst (execute (WithdrawCommand ''A'' (Fin 50)) 1 2 example_db) \<and>
   fst (execute (TransferCommand ''A'' ''B'' (Fin 50)) 1 2 example_db) \<and>
   fst (execute (TransferCommand ''A'' ''A'' (Fin 50)) 1 2 example_db) \<and>
   history_kept example_db (snd (execute (TransferCommand ''A'' ''B'' (Fin 50)) 1 2 example_db)) \<and>
   history_kept (snd (execute (TransferCommand ''A'' ''B'' (Fin 50)) 1 2 example_db))
     (snd (execute_then_undo (TransferCommand ''A'' ''B'' (Fin 50)) 1 2 3 4 example_db)) \<and>
   fst (execute_then_undo (DepositCommand ''A'' (Fin 50)) 1 2 3 4 example_db) \<and>
   map_of (snd (execute_then_undo (DepositCommand ''A'' (Fin 50)) 1 2 3 4 example_db)) =
     (map_of example_db)
       (''A'' \<mapsto> acct_A\<lparr>transaction_history :=
            [\<lparr>type = ''DEPOSIT'', amount = Fin 50, timestamp = 1\<rparr>,
             \<lparr>type = ''WITHDRAWAL'', amount = Fin 50, timestamp = 3\<rparr>]\<rparr>) \<and>
   fst (execute_then_undo (WithdrawCommand ''A'' (Fin 50)) 1 2 3 4 example_db) \<and>
   map_of (snd (execute_then_undo (WithdrawCommand ''A'' (Fin 50)) 1 2 3 4 example_db)) =
     (map_of example_db)
       (''A'' \<mapsto> acct_A\<lparr>transaction_history :=
            [\<lparr>type = ''WITHDRAWAL'', amount = Fin 50, timestamp = 1\<rparr>,
             \<lparr>type = ''DEPOSIT'', amount = Fin 50, timestamp = 3\<rparr>]\<rparr>) \<and>
   fst (execute_then_undo (TransferCommand ''A'' ''B'' (Fin 50)) 1 2 3 4 example_db) \<and>
   map_of (snd (execute_then_undo (TransferCommand ''A'' ''B'' (Fin 50)) 1 2 3 4 example_db)) =
     (map_of example_db)
       (''A'' \<mapsto> acct_A\<lparr>transaction_history :=
            [\<lparr>type = ''WITHDRAWAL'', amount = Fin 50, timestamp = 1\<rparr>,
             \<lparr>type = ''DEPOSIT'', amount = Fin 50, timestamp = 4\<rparr>]\<rparr>,
        ''B'' \<mapsto> acct_B\<lparr>transaction_history :=
            [\<lparr>type = ''DEPOSIT'', amount = Fin 50, timestamp = 2\<rparr>,
             \<lparr>type = ''WITHDRAWAL'', amount = Fin 50, timestamp = 3\<rparr>]\<rparr>) \<and>
   fst (execute_then_undo (TransferCommand ''A'' ''A'' (Fin 50)) 1 2 3 4 example_db) \<and>
   map_of (snd (execute_then_undo (TransferCommand ''A'' ''A'' (Fin 50)) 1 2 3 4 example_db)) =
     (map_of example_db)
       (''A'' \<mapsto> acct_A\<lparr>transaction_history :=
            [\<lparr>type = ''WITHDRAWAL'', amount = Fin 50, timestamp = 1\<rparr>,
             \<lparr>type = ''DEPOSIT'', amount = Fin 50, timestamp = 2\<rparr>,
             \<lparr>type = ''WITHDRAWAL'', amount = Fin 50, timestamp = 3\<rparr>,
             \<lparr>type = ''DEPOSIT'', amount = Fin 50, timestamp = 4\<rparr>]\<rparr>)"
proof -
  have neq: "''A'' \<noteq> ''B''" by simp
  have dbl: "is_double (balance acct_A)" "is_double (balance acct_B)"
    by (simp_all add: example_balance round64_100 round64_50)
  have pos: "fle (Fin 0) (balance acct_A)" "fle (Fin 0) (balance acct_B)"
    by (simp_all add: example_balance)
  have exact: "exact_add (balance acct_A) (Fin 50)" "exact_sub (balance acct_A) (Fin 50)"
    "exact_add (balance acct_B) (Fin 50)"
    by (simp_all add: example_balance round64_150 round64_50 round64_100)
  have ok: "fst (execute (DepositCommand ''A'' (Fin 50)) 1 2 example_db)"
    "fst (execute (WithdrawCommand ''A'' (Fin 50)) 1 2 example_db)"
    "fst (execute (TransferCommand ''A'' ''B'' (Fin 50)) 1 2 example_db)"
    "fst (execute (TransferCommand ''A'' ''A'' (Fin 50)) 1 2 example_db)"
    by (simp_all add: on_account_def example_lookup update_conv' deposit_def withdraw_def
        example_balance)
  show ?thesis
    using execute_undo_restores [where db = example_db and c = "TransferCommand ''A'' ''B'' (Fin 50)"
        and r = "''A''" and a = acct_A and x = "Fin 50" and p = "''A''" and q = "''B''"
        and A = acct_A and B = acct_B and ?t1.0 = 1 and ?t2.0 = 2 and ?t3.0 = 3 and ?t4.0 = 4]
      neq dbl pos exact ok
    by (simp add: example_lookup example_histories
        del: execute.simps undo.simps is_double.simps exact_add.simps exact_sub.simps)
qed

section \<open>The undo stack\<close>

lemma successful_perform:
  assumes "perform r t t' s = (m, s')" and "successful m"
  shows "\<exists>c. command_of r = Some c \<and> fst (execute c t t' (database s)) \<and>
    s' = s\<lparr>database := snd (execute c t t' (database s)), undo_stack := undo_stack s @ [c]\<rparr>"
proof (cases r)
  case (Deposit aid inp)
  then show ?thesis
    using assms
    by (auto simp add: system_deposit_def run_command_def
        split: option.splits if_splits simp del: execute.simps)
next
  case (Withdraw aid inp)
  then show ?thesis
    using assms
    by (auto simp add: system_withdraw_def run_command_def
        split: option.splits if_splits simp del: execute.simps)
next
  case (Transfer from_id to_id inp)
  then show ?thesis
    using assms
    by (auto simp add: system_transfer_def run_command_def
        split: option.splits if_splits simp del: execute.simps)
qed

lemma unsuccessful_perform:
  "\<not> successful (fst (perform r t t' s)) \<Longrightarrow> undo_stack (snd (perform r t t' s)) = undo_stack s"
  by (cases r)
    (auto simp add: system_deposit_def system_withdraw_def system_transfer_def run_command_def
      split: option.splits if_splits simp del: execute.simps)

lemma undo_transaction_pop:
  assumes "undo_stack s = st @ [c]"
  shows "undo_transaction a b s =
    (if fst (undo c a b (database s)) then SuccessfullyUndone else FailedToUndo,
     s\<lparr>database := snd (undo c a b (database s)), undo_stack := st\<rparr>)"
  using assms by (simp add: undo_transaction_def Let_def del: undo.simps)

lemma undo_transaction_empty:
  "undo_stack s = [] \<Longrightarrow> undo_transaction a b s = (NoTransactionsToUndo, s)"
  by (simp add: undo_transaction_def)

lemma example_run:
  "perform (Deposit ''A'' (Some (Fin 50))) 1 2 example_system = (DepositSuccessful, example_s1)"
  "perform (Withdraw ''B'' (Some (Fin 20))) 3 4 example_s1 = (WithdrawalSuccessful, example_s2)"
  "perform (Transfer ''A'' ''B'' (Some (Fin 30))) 5 6 example_s2 = (TransferSuccessful, example_s3)"
  "undo_transaction 7 8 example_s3 = (SuccessfullyUndone, example_u1)"
  "undo_transaction 9 10 example_u1 = (SuccessfullyUndone, example_u2)"
  "undo_transaction 11 12 example_u2 = (SuccessfullyUndone, example_u3)"
  "undo_transaction 13 14 example_u3 = (NoTransactionsToUndo, example_u3)"
  by (simp_all add: example_system_def example_s1_def example_s2_def example_s3_def
      example_u1_def example_u2_def example_u3_def example_db_def
      system_deposit_def system_withdraw_def system_transfer_def run_command_def
      undo_transaction_def get_account_def on_account_def deposit_def withdraw_def
      example_balance example_histories round64_0 round64_50 round64_100 round64_150
      round64_more)

lemma example_failed_undo:
  "perform (Deposit ''N'' (Some (Fin 50))) 1 2 \<lparr>database = [(''N'', acct_N)], undo_stack = []\<rparr> =
     (DepositSuccessful, example_n1)"
  "undo_transaction 3 4 example_n1 = (FailedToUndo, example_n1\<lparr>undo_stack := []\<rparr>)"
  by (simp_all add: example_n1_def system_deposit_def run_command_def
      undo_transaction_def get_account_def on_account_def deposit_def withdraw_def
      acct_N_balance example_histories round64_more)

lemma successful_perform_stack:
  assumes "perform r t t' s = (m, s')" and "successful m"
  shows "\<exists>c. command_of r = Some c \<and> execute c t t' (database s) = (True, database s') \<and>
    undo_stack s' = undo_stack s @ [c]"
proof -
  from successful_perform [OF assms] obtain c where
    c: "command_of r = Some c" "fst (execute c t t' (database s))"
      "s' = s\<lparr>database := snd (execute c t t' (database s)), undo_stack := undo_stack s @ [c]\<rparr>"
    by blast
  have "database s' = snd (execute c t t' (database s))" "undo_stack s' = undo_stack s @ [c]"
    by (simp_all add: c(3))
  with c(1,2) show ?thesis
    by (simp add: prod_eq_iff del: execute.simps)
qed

text \<open>
  C6. A menu operation pushes its command exactly when the command's \<^verbatim>\<open>execute\<close> returned
  true. After three successful operations with commands \<open>c1\<close>, \<open>c2\<close>, \<open>c3\<close> these lie on the
  stack in that order, and three calls of \<^verbatim>\<open>undo_transaction\<close> call \<^verbatim>\<open>undo\<close> of \<open>c3\<close>, then of
  \<open>c2\<close>, then of \<open>c1\<close>, each on the database the previous call left, and leave the stack as
  it was before the three operations; if that was empty, a fourth call reports that there
  is nothing to undo and changes nothing. On any empty stack \<^verbatim>\<open>undo_transaction\<close> reports
  that and changes nothing. On a non-empty stack it removes the last command whether its
  \<^verbatim>\<open>undo\<close> returns true or false: a command whose undo fails is not pushed again.
\<close>

theorem undo_is_lifo:
  assumes "perform r1 t1 t1' s0 = (m1, s1)" and "successful m1"
    and "perform r2 t2 t2' s1 = (m2, s2)" and "successful m2"
    and "perform r3 t3 t3' s2 = (m3, s3)" and "successful m3"
    and "undo_transaction a1 b1 s3 = (n1, u1)"
    and "undo_transaction a2 b2 u1 = (n2, u2)"
    and "undo_transaction a3 b3 u2 = (n3, u3)"
  shows "\<exists>c1 c2 c3.
    command_of r1 = Some c1 \<and> command_of r2 = Some c2 \<and> command_of r3 = Some c3 \<and>
    execute c1 t1 t1' (database s0) = (True, database s1) \<and>
    execute c2 t2 t2' (database s1) = (True, database s2) \<and>
    execute c3 t3 t3' (database s2) = (True, database s3) \<and>
    undo_stack s3 = undo_stack s0 @ [c1, c2, c3] \<and>
    database u1 = snd (undo c3 a1 b1 (database s3)) \<and>
    undo_stack u1 = undo_stack s0 @ [c1, c2] \<and>
    n1 = (if fst (undo c3 a1 b1 (database s3)) then SuccessfullyUndone else FailedToUndo) \<and>
    database u2 = snd (undo c2 a2 b2 (database u1)) \<and>
    undo_stack u2 = undo_stack s0 @ [c1] \<and>
    n2 = (if fst (undo c2 a2 b2 (database u1)) then SuccessfullyUndone else FailedToUndo) \<and>
    database u3 = snd (undo c1 a3 b3 (database u2)) \<and>
    undo_stack u3 = undo_stack s0 \<and>
    n3 = (if fst (undo c1 a3 b3 (database u2)) then SuccessfullyUndone else FailedToUndo) \<and>
    (undo_stack s0 = [] \<longrightarrow> undo_transaction a4 b4 u3 = (NoTransactionsToUndo, u3)) \<and>
    (\<not> successful (fst (perform r t t' s)) \<longrightarrow>
       undo_stack (snd (perform r t t' s)) = undo_stack s) \<and>
    (undo_stack s = [] \<longrightarrow> undo_transaction a b s = (NoTransactionsToUndo, s)) \<and>
    (undo_stack s \<noteq> [] \<longrightarrow>
       undo_transaction a b s =
         (if fst (undo (last (undo_stack s)) a b (database s)) then SuccessfullyUndone
          else FailedToUndo,
          s\<lparr>database := snd (undo (last (undo_stack s)) a b (database s)),
            undo_stack := butlast (undo_stack s)\<rparr>))"
proof -
  from successful_perform_stack [OF assms(1,2)] obtain c1 where
    c1: "command_of r1 = Some c1" and s1: "undo_stack s1 = undo_stack s0 @ [c1]"
    and x1: "execute c1 t1 t1' (database s0) = (True, database s1)"
    by blast
  from successful_perform_stack [OF assms(3,4)] obtain c2 where
    c2: "command_of r2 = Some c2" and s2: "undo_stack s2 = undo_stack s1 @ [c2]"
    and x2: "execute c2 t2 t2' (database s1) = (True, database s2)"
    by blast
  from successful_perform_stack [OF assms(5,6)] obtain c3 where
    c3: "command_of r3 = Some c3" and s3: "undo_stack s3 = undo_stack s2 @ [c3]"
    and x3: "execute c3 t3 t3' (database s2) = (True, database s3)"
    by blast
  have st3: "undo_stack s3 = (undo_stack s0 @ [c1, c2]) @ [c3]"
    by (simp add: s1 s2 s3)
  have 1: "n1 = (if fst (undo c3 a1 b1 (database s3)) then SuccessfullyUndone else FailedToUndo)"
    "u1 = s3\<lparr>database := snd (undo c3 a1 b1 (database s3)), undo_stack := undo_stack s0 @ [c1, c2]\<rparr>"
    using assms(7) unfolding undo_transaction_pop [OF st3] by simp_all
  have st2: "undo_stack u1 = (undo_stack s0 @ [c1]) @ [c2]"
    by (simp add: 1)
  have 2: "n2 = (if fst (undo c2 a2 b2 (database u1)) then SuccessfullyUndone else FailedToUndo)"
    "u2 = u1\<lparr>database := snd (undo c2 a2 b2 (database u1)), undo_stack := undo_stack s0 @ [c1]\<rparr>"
    using assms(8) unfolding undo_transaction_pop [OF st2] by simp_all
  have st1: "undo_stack u2 = undo_stack s0 @ [c1]"
    by (simp add: 2)
  have 3: "n3 = (if fst (undo c1 a3 b3 (database u2)) then SuccessfullyUndone else FailedToUndo)"
    "u3 = u2\<lparr>database := snd (undo c1 a3 b3 (database u2)), undo_stack := undo_stack s0\<rparr>"
    using assms(9) unfolding undo_transaction_pop [OF st1] by simp_all
  have 4: "undo_stack s0 = [] \<longrightarrow> undo_transaction a4 b4 u3 = (NoTransactionsToUndo, u3)"
    by (simp add: undo_transaction_empty 3)
  have d1: "database u1 = snd (undo c3 a1 b1 (database s3))"
    and k1: "undo_stack u1 = undo_stack s0 @ [c1, c2]"
    by (simp_all add: 1(2))
  have d2: "database u2 = snd (undo c2 a2 b2 (database u1))"
    and k2: "undo_stack u2 = undo_stack s0 @ [c1]"
    by (simp_all add: 2(2))
  have d3: "database u3 = snd (undo c1 a3 b3 (database u2))"
    and k3: "undo_stack u3 = undo_stack s0"
    by (simp_all add: 3(2))
  have k0: "undo_stack s3 = undo_stack s0 @ [c1, c2, c3]"
    by (simp add: st3)
  have 5: "undo_stack s = [] \<longrightarrow> undo_transaction a b s = (NoTransactionsToUndo, s)"
    by (simp add: undo_transaction_empty)
  have pop: "undo_transaction a b s =
         (if fst (undo (last (undo_stack s)) a b (database s)) then SuccessfullyUndone
          else FailedToUndo,
          s\<lparr>database := snd (undo (last (undo_stack s)) a b (database s)),
            undo_stack := butlast (undo_stack s)\<rparr>)" if "undo_stack s \<noteq> []"
    using undo_transaction_pop [of s "butlast (undo_stack s)" "last (undo_stack s)" a b] that
    by simp
  then have 6: "undo_stack s \<noteq> [] \<longrightarrow>
       undo_transaction a b s =
         (if fst (undo (last (undo_stack s)) a b (database s)) then SuccessfullyUndone
          else FailedToUndo,
          s\<lparr>database := snd (undo (last (undo_stack s)) a b (database s)),
            undo_stack := butlast (undo_stack s)\<rparr>)"
    by simp
  have 7: "\<not> successful (fst (perform r t t' s)) \<longrightarrow>
       undo_stack (snd (perform r t t' s)) = undo_stack s"
    by (simp add: unsuccessful_perform del: perform.simps)
  show ?thesis
    apply (rule exI [of _ c1], rule exI [of _ c2], rule exI [of _ c3])
    apply (intro conjI)
    apply (fact c1 c2 c3 x1 x2 x3 k0 d1 k1 1(1) d2 k2 2(1) d3 k3 3(1) 4 5 6 7)+
    done
qed

theorem undo_is_lifo_witness:
  "perform (Deposit ''A'' (Some (Fin 50))) 1 2 example_system = (DepositSuccessful, example_s1) \<and>
   successful DepositSuccessful \<and>
   perform (Withdraw ''B'' (Some (Fin 20))) 3 4 example_s1 = (WithdrawalSuccessful, example_s2) \<and>
   successful WithdrawalSuccessful \<and>
   perform (Transfer ''A'' ''B'' (Some (Fin 30))) 5 6 example_s2 = (TransferSuccessful, example_s3) \<and>
   successful TransferSuccessful \<and>
   undo_transaction 7 8 example_s3 = (SuccessfullyUndone, example_u1) \<and>
   undo_transaction 9 10 example_u1 = (SuccessfullyUndone, example_u2) \<and>
   undo_transaction 11 12 example_u2 = (SuccessfullyUndone, example_u3) \<and>
   undo_stack example_system = [] \<and>
   undo_stack example_s3 =
     [DepositCommand ''A'' (Fin 50), WithdrawCommand ''B'' (Fin 20),
      TransferCommand ''A'' ''B'' (Fin 30)] \<and>
   database example_u1 = snd (undo (TransferCommand ''A'' ''B'' (Fin 30)) 7 8 (database example_s3)) \<and>
   database example_u2 = snd (undo (WithdrawCommand ''B'' (Fin 20)) 9 10 (database example_u1)) \<and>
   database example_u3 = snd (undo (DepositCommand ''A'' (Fin 50)) 11 12 (database example_u2)) \<and>
   undo_transaction 13 14 example_u3 = (NoTransactionsToUndo, example_u3) \<and>
   \<not> successful (fst (perform (Withdraw ''N'' (Some (Fin 500))) 5 6 example_n1)) \<and>
   perform (Withdraw ''N'' (Some (Fin 500))) 5 6 example_n1 = (InvalidWithdrawal, example_n1) \<and>
   undo_stack example_n1 \<noteq> [] \<and>
   \<not> fst (undo (last (undo_stack example_n1)) 3 4 (database example_n1)) \<and>
   undo_transaction 3 4 example_n1 = (FailedToUndo, example_n1\<lparr>undo_stack := []\<rparr>)"
proof -
  have st: "undo_stack example_system = []" "undo_stack example_n1 \<noteq> []"
    by (simp_all add: example_system_def example_n1_def)
  have nf: "\<not> fst (undo (last (undo_stack example_n1)) 3 4 (database example_n1))"
    by (simp add: example_n1_def on_account_def withdraw_def)
  have inv: "perform (Withdraw ''N'' (Some (Fin 500))) 5 6 example_n1 = (InvalidWithdrawal, example_n1)"
    by (simp add: example_n1_def system_withdraw_def run_command_def get_account_def
        on_account_def withdraw_def)
  have ok: "successful DepositSuccessful" "successful WithdrawalSuccessful"
    "successful TransferSuccessful"
    by simp_all
  show ?thesis
    using undo_is_lifo [OF example_run(1) ok(1) example_run(2) ok(2) example_run(3) ok(3)
        example_run(4,5,6), where s = example_n1 and a = 3 and b = 4
        and r = "Withdraw ''N'' (Some (Fin 500))" and t = 5 and t' = 6 and ?a4.0 = 13 and ?b4.0 = 14]
      st nf inv
    by (simp add: example_run example_failed_undo inv One_nat_def [symmetric]
        del: undo.simps execute.simps perform.simps One_nat_def)
qed

end
